theory Spec2Isabelle
  imports Complex_Main "HOL-Library.Word" "HOL-Library.Multiset" "HOL-Library.AList"
begin

section \<open>Stack translation: a shallow embedding of package stack\<close>

text \<open>
  The embedded code is \<^verbatim>\<open>translate.go\<close> of package \<^verbatim>\<open>stack\<close>, and the behaviour that the
  tests of its \<^verbatim>\<open>deploy.go\<close> fix.

  Conventions.
  \<^item> Go \<^verbatim>\<open>int32\<close>/\<^verbatim>\<open>int64\<close> fields that are only copied and compared are \<open>int\<close>; the
    one narrowing conversion of the code (\<^verbatim>\<open>int32(...)\<close> in \<^verbatim>\<open>getSvcProbe\<close>) is written
    out as a wrap-around.
  \<^item> A \<^verbatim>\<open>resource.Quantity\<close> is its parsed numeric value, a \<open>rat\<close>.
  \<^item> A Go string is a \<open>string\<close> (a list of bytes), \<^verbatim>\<open>[]byte\<close> is a list of \<open>8 word\<close>.
  \<^item> A Go map that is only looked up and overwritten is a map \<open>string \<rightharpoonup> 'v\<close>;
    a map that the code iterates over, or that has to be finite, is an association
    list (the list order stands for the iteration order taken).
  \<^item> A pointer that may be \<^verbatim>\<open>nil\<close> is an \<open>option\<close>; dereferencing \<^verbatim>\<open>nil\<close> is the
    error \<open>NilPointerDereference\<close>.
\<close>

subsection \<open>Package model: the stack\<close>

record Port =
  port_HostPort :: int
  port_ContainerPort :: int
  port_Protocol :: string

record StackVolume =
  vol_LocalPath :: string
  vol_RemotePath :: string

record EnvVar =
  env_Name :: string
  env_Value :: string

record StorageResource =
  stor_Size :: rat
  stor_Class :: string

record ServiceResources =
  sr_CPU :: rat
  sr_Memory :: rat
  sr_Storage :: StorageResource

record StackResources =
  res_Limits :: ServiceResources
  res_Requests :: ServiceResources

record HTTPHealtcheck =
  http_Path :: string
  http_Port :: int

record HealthCheck =
  hc_HTTP :: "HTTPHealtcheck option"
  hc_Test :: "string list"
  hc_Interval :: int
  hc_Timeout :: int
  hc_Retries :: int
  hc_StartPeriod :: int

record StackSecurityContext =
  usr_RunAsUser :: "int option"
  usr_RunAsGroup :: "int option"

record DependsOnConditionSpec =
  dep_Condition :: string

record Service =
  svc_Healtcheck :: "HealthCheck option"
  svc_Resources :: "StackResources option"
  svc_Workdir :: string
  svc_Image :: string
  svc_User :: "StackSecurityContext option"
  svc_Labels :: "string \<rightharpoonup> string"
  svc_Annotations :: "string \<rightharpoonup> string"
  svc_DependsOn :: "(string \<times> DependsOnConditionSpec) list"
  svc_RestartPolicy :: string
  svc_Environment :: "EnvVar list"
  svc_Volumes :: "StackVolume list"
  svc_CapAdd :: "string list"
  svc_CapDrop :: "string list"
  svc_Ports :: "Port list"
  svc_Command :: "string list"
  svc_Entrypoint :: "string list"
  svc_StopGracePeriod :: int
  svc_Replicas :: int
  svc_BackOffLimit :: int

record VolumeSpec =
  vs_Labels :: "string \<rightharpoonup> string"
  vs_Annotations :: "string \<rightharpoonup> string"
  vs_Size :: rat
  vs_Class :: string

record Stack =
  stk_Manifest :: "8 word list"
  stk_Volumes :: "(string \<times> VolumeSpec) list"
  stk_Services :: "(string \<times> Service) list"
  stk_Name :: string
  stk_Namespace :: string
  stk_IsCompose :: bool

text \<open>
  The constants and helpers of package \<^verbatim>\<open>model\<close> that \<^verbatim>\<open>translate.go\<close> uses are declared
  in files that are not at hand; they are parameters of the embedding.
\<close>

record ModelConsts =
  StackLabel :: string
  StackNameLabel :: string
  StackServiceNameLabel :: string
  StackVolumeNameLabel :: string
  DeployedByLabel :: string
  OktetoSampleAnnotation :: string
  OktetoComposeUpdateStrategyAnnotation :: string
  DependsOnServiceHealthy :: string
  GetStackConfigMapName :: "string \<Rightarrow> string"

text \<open>
  What the translation takes from the process and from the Go library: the result of
  \<^verbatim>\<open>utils.IsOktetoRepo()\<close>, the value \<^verbatim>\<open>os.Getenv(model.OktetoComposeUpdateStrategyEnvVar)\<close>
  (empty when unset), and the order in which \<^verbatim>\<open>sort.Slice\<close> leaves a slice of ports when
  it is given the comparison of \<^verbatim>\<open>translateContainerPorts\<close>. The library sorts in place
  and does not promise a stable sort, and its algorithm differs between releases of Go,
  so the sorted slice is a parameter, of which only \<open>sortSliceContract\<close> is known.
\<close>

record Environ =
  IsOktetoRepo :: bool
  UpdateStrategyEnvVar :: string
  SortSlicePorts :: "Port list \<Rightarrow> Port list"

text \<open>
  What \<^verbatim>\<open>sort.Slice\<close> guarantees: the slice afterwards holds the same elements, ascending
  by container port. Nothing is said of the order of ports with equal container port.
\<close>

definition sortSliceContract :: "Environ \<Rightarrow> bool" where
  "sortSliceContract E \<longleftrightarrow>
     (\<forall>ports. mset (SortSlicePorts E ports) = mset ports \<and>
              sorted (map port_ContainerPort (SortSlicePorts E ports)))"

datatype error = NilPointerDereference

subsection \<open>Kubernetes API objects\<close>

definition ResourceCPU :: string where "ResourceCPU = ''cpu''"
definition ResourceMemory :: string where "ResourceMemory = ''memory''"
definition ResourceStorage :: string where "ResourceStorage = ''storage''"

type_synonym ResourceList = "string \<rightharpoonup> rat"

record ResourceRequirements =
  rr_Limits :: "ResourceList option"
  rr_Requests :: "ResourceList option"

subsection \<open>translateResources\<close>

definition translateResources :: "Service \<Rightarrow> ResourceRequirements" where
  "translateResources svc =
    (let result = \<lparr>rr_Limits = None, rr_Requests = None\<rparr> in
     case svc_Resources svc of
       None \<Rightarrow> result
     | Some r \<Rightarrow>
        (let result =
               (if 0 < sr_CPU (res_Limits r)
                then result\<lparr>rr_Limits := Some [ResourceCPU \<mapsto> sr_CPU (res_Limits r)]\<rparr>
                else result);
             result =
               (if 0 < sr_Memory (res_Limits r)
                then (let result = (if rr_Limits result = None
                                    then result\<lparr>rr_Limits := Some Map.empty\<rparr> else result)
                      in result\<lparr>rr_Limits :=
                           Some ((the (rr_Limits result))(ResourceMemory \<mapsto> sr_Memory (res_Limits r)))\<rparr>)
                else result);
             result =
               (if 0 < sr_CPU (res_Requests r)
                then result\<lparr>rr_Requests := Some [ResourceCPU \<mapsto> sr_CPU (res_Requests r)]\<rparr>
                else result);
             result =
               (if 0 < sr_Memory (res_Requests r)
                then (if rr_Requests result = None
                      then result\<lparr>rr_Requests := Some [ResourceMemory \<mapsto> sr_Memory (res_Requests r)]\<rparr>
                      else result)
                else result)
         in result))"

text \<open>The emitted entry of a resource list, \<open>None\<close> when the list is \<^verbatim>\<open>nil\<close> or lacks the key.\<close>

definition emitted :: "ResourceList option \<Rightarrow> string \<Rightarrow> rat option" where
  "emitted l k = (case l of None \<Rightarrow> None | Some m \<Rightarrow> m k)"

text \<open>The zero value of \<^verbatim>\<open>model.Service\<close>, from which the concrete inputs below are built.\<close>

definition zeroService :: Service where
  "zeroService =
     \<lparr>svc_Healtcheck = None, svc_Resources = None, svc_Workdir = [], svc_Image = [],
      svc_User = None, svc_Labels = Map.empty, svc_Annotations = Map.empty, svc_DependsOn = [],
      svc_RestartPolicy = [], svc_Environment = [], svc_Volumes = [],
      svc_CapAdd = [], svc_CapDrop = [], svc_Ports = [], svc_Command = [],
      svc_Entrypoint = [], svc_StopGracePeriod = 0, svc_Replicas = 0, svc_BackOffLimit = 0\<rparr>"

definition svcCpuMem :: "rat \<Rightarrow> rat \<Rightarrow> rat \<Rightarrow> rat \<Rightarrow> Service" where
  "svcCpuMem lc lm rc rm =
     zeroService\<lparr>svc_Resources :=
       Some \<lparr>res_Limits = \<lparr>sr_CPU = lc, sr_Memory = lm,
                              sr_Storage = \<lparr>stor_Size = 0, stor_Class = []\<rparr>\<rparr>,
             res_Requests = \<lparr>sr_CPU = rc, sr_Memory = rm,
                                sr_Storage = \<lparr>stor_Size = 0, stor_Class = []\<rparr>\<rparr>\<rparr>\<rparr>"

text \<open>One instance of the parameters, for running the model on concrete inputs.\<close>

definition exampleConsts :: ModelConsts where
  "exampleConsts =
     \<lparr>StackLabel = ''stack.okteto.com'',
      StackNameLabel = ''stack.okteto.com/name'',
      StackServiceNameLabel = ''stack.okteto.com/service'',
      StackVolumeNameLabel = ''stack.okteto.com/volume'',
      DeployedByLabel = ''dev.okteto.com/deployed-by'',
      OktetoSampleAnnotation = ''dev.okteto.com/sample'',
      OktetoComposeUpdateStrategyAnnotation = ''dev.okteto.com/update'',
      DependsOnServiceHealthy = ''service_healthy'',
      GetStackConfigMapName = (\<lambda>name. ''okteto-'' @ name)\<rparr>"

subsection \<open>Formatting helpers of the Go library\<close>

text \<open>\<^verbatim>\<open>%d\<close> of \<^verbatim>\<open>fmt.Sprintf\<close>: the decimal form of an integer.\<close>

fun natDigits :: "nat \<Rightarrow> string" where
  "natDigits n =
     (if n < 10 then [''0123456789'' ! n]
      else natDigits (n div 10) @ [''0123456789'' ! (n mod 10)])"

definition showInt :: "int \<Rightarrow> string" where
  "showInt i = (if i < 0 then ''-'' @ natDigits (nat (- i)) else natDigits (nat i))"

text \<open>\<^verbatim>\<open>strings.ToLower\<close> and \<^verbatim>\<open>strings.TrimSpace\<close>, on ASCII.\<close>

definition lowerChar :: "char \<Rightarrow> char" where
  "lowerChar c =
     (case map_of (zip ''ABCDEFGHIJKLMNOPQRSTUVWXYZ'' ''abcdefghijklmnopqrstuvwxyz'') c of
        None \<Rightarrow> c | Some l \<Rightarrow> l)"

definition ToLower :: "string \<Rightarrow> string" where
  "ToLower s = map lowerChar s"

definition isSpace :: "char \<Rightarrow> bool" where
  "isSpace c = (c \<in> set [CHR '' '', CHR 0x09, CHR 0x0A, CHR 0x0B, CHR 0x0C, CHR 0x0D])"

definition TrimSpace :: "string \<Rightarrow> string" where
  "TrimSpace s = rev (dropWhile isSpace (rev (dropWhile isSpace s)))"

definition FormatBool :: "bool \<Rightarrow> string" where
  "FormatBool b = (if b then ''true'' else ''false'')"

text \<open>The single quote and the backslash, written by their codes.\<close>

definition sq :: string where "sq = [CHR 0x27]"
definition backslash :: string where "backslash = [CHR 0x5C]"

subsection \<open>Update strategy\<close>

type_synonym updateStrategy = string

definition rollingUpdateStrategy :: updateStrategy where
  "rollingUpdateStrategy = ''rolling''"

definition recreateUpdateStrategy :: updateStrategy where
  "recreateUpdateStrategy = ''recreate''"

definition onDeleteUpdateStrategy :: updateStrategy where
  "onDeleteUpdateStrategy = ''on-delete''"

text \<open>
  The interface \<^verbatim>\<open>updateStrategyGetter\<close> has two implementations; \<open>validate\<close> returns the
  error (its message) or \<open>None\<close> for \<^verbatim>\<open>nil\<close>.
\<close>

datatype updateStrategyGetter = deploymentStrategyGetter | statefulSetStrategyGetter

fun validate :: "updateStrategyGetter \<Rightarrow> updateStrategy \<Rightarrow> string option" where
  "validate deploymentStrategyGetter u =
     (if u \<noteq> rollingUpdateStrategy \<and> u \<noteq> recreateUpdateStrategy
      then Some (''invalid deployment update strategy: '' @ sq @ u @ sq)
      else None)"
| "validate statefulSetStrategyGetter u =
     (if u \<noteq> rollingUpdateStrategy \<and> u \<noteq> onDeleteUpdateStrategy
      then Some (''invalid statefulset update strategy: '' @ sq @ u @ sq)
      else None)"

fun getDefault :: "updateStrategyGetter \<Rightarrow> updateStrategy" where
  "getDefault deploymentStrategyGetter = recreateUpdateStrategy"
| "getDefault statefulSetStrategyGetter = rollingUpdateStrategy"

definition getUpdateStrategyByAnnotation :: "ModelConsts \<Rightarrow> Service \<Rightarrow> updateStrategy" where
  "getUpdateStrategyByAnnotation K svc =
     (case svc_Annotations svc (OktetoComposeUpdateStrategyAnnotation K) of
        Some v \<Rightarrow> v
      | None \<Rightarrow> [])"

definition getUpdateStrategyByEnvVar :: "Environ \<Rightarrow> updateStrategy" where
  "getUpdateStrategyByEnvVar E =
     (if UpdateStrategyEnvVar E \<noteq> [] then UpdateStrategyEnvVar E else [])"

definition getUpdateStrategy ::
    "ModelConsts \<Rightarrow> Environ \<Rightarrow> Service \<Rightarrow> updateStrategyGetter \<Rightarrow> updateStrategy" where
  "getUpdateStrategy K E svc strategy =
     (let result = getUpdateStrategyByAnnotation K svc
      in if result \<noteq> [] \<and> validate strategy result = None then result
         else (let result = getUpdateStrategyByEnvVar E
               in if result \<noteq> [] \<and> validate strategy result = None then result
                  else getDefault strategy))"

definition RollingUpdateDeploymentStrategyType :: string where
  "RollingUpdateDeploymentStrategyType = ''RollingUpdate''"
definition RecreateDeploymentStrategyType :: string where
  "RecreateDeploymentStrategyType = ''Recreate''"
definition RollingUpdateStatefulSetStrategyType :: string where
  "RollingUpdateStatefulSetStrategyType = ''RollingUpdate''"
definition OnDeleteStatefulSetStrategyType :: string where
  "OnDeleteStatefulSetStrategyType = ''OnDelete''"

definition getDeploymentUpdateStrategy :: "ModelConsts \<Rightarrow> Environ \<Rightarrow> Service \<Rightarrow> string" where
  "getDeploymentUpdateStrategy K E svc =
     (let result = getUpdateStrategy K E svc deploymentStrategyGetter in
      if result = rollingUpdateStrategy then RollingUpdateDeploymentStrategyType
      else RecreateDeploymentStrategyType)"

definition getStatefulsetUpdateStrategy :: "ModelConsts \<Rightarrow> Environ \<Rightarrow> Service \<Rightarrow> string" where
  "getStatefulsetUpdateStrategy K E svc =
     (let result = getUpdateStrategy K E svc statefulSetStrategyGetter in
      if result = rollingUpdateStrategy then RollingUpdateStatefulSetStrategyType
      else OnDeleteStatefulSetStrategyType)"

text \<open>
  The resolution as the specification words it: the annotation if present and in the
  kind's allowed set, else the override if present and allowed, else the kind's default.
\<close>

fun spec_allowed :: "updateStrategyGetter \<Rightarrow> updateStrategy \<Rightarrow> bool" where
  "spec_allowed deploymentStrategyGetter u = (u = ''rolling'' \<or> u = ''recreate'')"
| "spec_allowed statefulSetStrategyGetter u = (u = ''rolling'' \<or> u = ''on-delete'')"

fun spec_default :: "updateStrategyGetter \<Rightarrow> updateStrategy" where
  "spec_default deploymentStrategyGetter = ''recreate''"
| "spec_default statefulSetStrategyGetter = ''rolling''"

definition spec_resolve ::
    "string option \<Rightarrow> string option \<Rightarrow> updateStrategyGetter \<Rightarrow> updateStrategy" where
  "spec_resolve annotation override kind =
     (case annotation of
        Some a \<Rightarrow>
          if spec_allowed kind a then a
          else (case override of
                  Some v \<Rightarrow> if spec_allowed kind v then v else spec_default kind
                | None \<Rightarrow> spec_default kind)
      | None \<Rightarrow>
          (case override of
             Some v \<Rightarrow> if spec_allowed kind v then v else spec_default kind
           | None \<Rightarrow> spec_default kind))"

text \<open>An unset environment variable reads as the empty string.\<close>

definition overrideOf :: "Environ \<Rightarrow> string option" where
  "overrideOf E = (if UpdateStrategyEnvVar E = [] then None else Some (UpdateStrategyEnvVar E))"

subsection \<open>Health probe\<close>

record HTTPGetAction =
  hg_Path :: string
  hg_Port :: int

record ProbeHandler =
  ph_Exec :: "string list option"
  ph_HTTPGet :: "HTTPGetAction option"

record Probe =
  pr_ProbeHandler :: ProbeHandler
  pr_TimeoutSeconds :: int
  pr_PeriodSeconds :: int
  pr_FailureThreshold :: int
  pr_InitialDelaySeconds :: int

text \<open>The conversion \<^verbatim>\<open>int32(x)\<close> of a 64-bit integer keeps the low 32 bits, signed.\<close>

definition int32 :: "int \<Rightarrow> int" where
  "int32 x = signed_take_bit 31 x"

text \<open>
  \<^verbatim>\<open>int32(d.Seconds())\<close> for a \<^verbatim>\<open>time.Duration\<close> \<open>d\<close> (nanoseconds): the seconds, truncated
  towards zero. \<^verbatim>\<open>Seconds()\<close> goes through \<^verbatim>\<open>float64\<close>; the truncation is exact for
  durations below \<open>2^24\<close> seconds, which is the range modelled here.
\<close>

definition secondsInt32 :: "int \<Rightarrow> int" where
  "secondsInt32 d = int32 (sgn d * (\<bar>d\<bar> div 1000000000))"

definition getSvcProbe :: "Service \<Rightarrow> error + Probe option" where
  "getSvcProbe svc =
     (case svc_Healtcheck svc of
        None \<Rightarrow> Inr None
      | Some hc \<Rightarrow>
         (case (if length (hc_Test hc) \<noteq> 0
                then Inr \<lparr>ph_Exec = Some (hc_Test hc), ph_HTTPGet = None\<rparr>
                else (case hc_HTTP hc of
                        None \<Rightarrow> Inl NilPointerDereference
                      | Some h \<Rightarrow>
                          Inr \<lparr>ph_Exec = None,
                               ph_HTTPGet = Some \<lparr>hg_Path = http_Path h, hg_Port = http_Port h\<rparr>\<rparr>))
          of
            Inl e \<Rightarrow> Inl e
          | Inr handler \<Rightarrow>
              Inr (Some \<lparr>pr_ProbeHandler = handler,
                         pr_TimeoutSeconds = secondsInt32 (hc_Timeout hc),
                         pr_PeriodSeconds = secondsInt32 (hc_Interval hc),
                         pr_FailureThreshold = int32 (hc_Retries hc),
                         pr_InitialDelaySeconds = secondsInt32 (hc_StartPeriod hc)\<rparr>)))"

subsection \<open>Ports\<close>

record ContainerPort =
  cp_ContainerPort :: int

record ServicePort =
  sp_Name :: string
  sp_Port :: int
  sp_TargetPort :: int
  sp_Protocol :: string

text \<open>
  \<^verbatim>\<open>translateContainerPorts\<close> sorts \<^verbatim>\<open>svc.Ports\<close> through the pointer it is given, so the
  sorted slice is what the service holds afterwards: the function returns the new
  service beside its result.
\<close>

definition translateContainerPorts :: "Environ \<Rightarrow> Service \<Rightarrow> ContainerPort list \<times> Service" where
  "translateContainerPorts E svc =
     (let svc = svc\<lparr>svc_Ports := SortSlicePorts E (svc_Ports svc)\<rparr>
      in (map (\<lambda>p. \<lparr>cp_ContainerPort = port_ContainerPort p\<rparr>) (svc_Ports svc), svc))"

fun isServicePortAdded :: "int \<Rightarrow> ServicePort list \<Rightarrow> bool" where
  "isServicePortAdded newPort [] = False"
| "isServicePortAdded newPort (p # existentPorts) =
     (if sp_Port p = newPort then True else isServicePortAdded newPort existentPorts)"

definition servicePortName :: "int \<Rightarrow> int \<Rightarrow> string \<Rightarrow> string" where
  "servicePortName port containerPort protocol =
     ''p-'' @ showInt port @ ''-'' @ showInt containerPort @ ''-'' @ ToLower protocol"

definition servicePortStep :: "Port \<Rightarrow> ServicePort list \<Rightarrow> ServicePort list" where
  "servicePortStep p result =
     (let result =
            (if \<not> isServicePortAdded (port_ContainerPort p) result
             then result @
                    [\<lparr>sp_Name = servicePortName (port_ContainerPort p) (port_ContainerPort p)
                                  (port_Protocol p),
                      sp_Port = port_ContainerPort p,
                      sp_TargetPort = port_ContainerPort p,
                      sp_Protocol = port_Protocol p\<rparr>]
             else result)
      in (if port_HostPort p \<noteq> 0 \<and> port_ContainerPort p \<noteq> port_HostPort p
             \<and> \<not> isServicePortAdded (port_HostPort p) result
          then result @
                 [\<lparr>sp_Name = servicePortName (port_HostPort p) (port_ContainerPort p)
                               (port_Protocol p),
                   sp_Port = port_HostPort p,
                   sp_TargetPort = port_ContainerPort p,
                   sp_Protocol = port_Protocol p\<rparr>]
          else result))"

definition translateServicePorts :: "Service \<Rightarrow> ServicePort list" where
  "translateServicePorts svc = foldl (\<lambda>result p. servicePortStep p result) [] (svc_Ports svc)"

subsection \<open>The configuration record\<close>

text \<open>
  \<^verbatim>\<open>base64.StdEncoding\<close> of the Go library (RFC 4648, padded): \<^verbatim>\<open>EncodeToString\<close> as the
  library's loop computes it, three bytes to four characters, and the decoding of such a
  text (without line breaks).
\<close>

definition encodeStd :: string where
  "encodeStd = ''ABCDEFGHIJKLMNOPQRSTUVWXYZabcdefghijklmnopqrstuvwxyz0123456789+/''"

definition encodeChar :: "nat \<Rightarrow> char" where
  "encodeChar v = encodeStd ! (v mod 64)"

fun EncodeToString :: "8 word list \<Rightarrow> string" where
  "EncodeToString (a # b # c # src) =
     (let val = unat a * 65536 + unat b * 256 + unat c
      in [encodeChar (val div 262144), encodeChar (val div 4096), encodeChar (val div 64),
          encodeChar val]) @ EncodeToString src"
| "EncodeToString [a, b] =
     (let val = unat a * 65536 + unat b * 256
      in [encodeChar (val div 262144), encodeChar (val div 4096), encodeChar (val div 64),
          CHR ''=''])"
| "EncodeToString [a] =
     (let val = unat a * 65536
      in [encodeChar (val div 262144), encodeChar (val div 4096), CHR ''='', CHR ''=''])"
| "EncodeToString [] = []"

definition decodeChar :: "char \<Rightarrow> nat option" where
  "decodeChar c = map_of (zip encodeStd [0..<64]) c"

text \<open>
  A quantum of two to four characters carries \<open>n\<close> bytes, one less than its length: the
  six-bit values are joined, padded with zero bits to 24, and the leading \<open>n\<close> bytes kept.
\<close>

definition decodeQuantum :: "char list \<Rightarrow> nat \<Rightarrow> 8 word list option" where
  "decodeQuantum cs n =
     (if list_all (\<lambda>c. decodeChar c \<noteq> None) cs
      then (let val = foldl (\<lambda>v c. v * 64 + the (decodeChar c)) 0 cs * 64 ^ (4 - length cs)
            in Some (take n [of_nat (val div 65536), of_nat (val div 256), of_nat val]))
      else None)"

fun DecodeString :: "string \<Rightarrow> 8 word list option" where
  "DecodeString (c0 # c1 # c2 # c3 # s) =
     (if s = [] \<and> c3 = CHR ''=''
      then (if c2 = CHR ''='' then decodeQuantum [c0, c1] 1 else decodeQuantum [c0, c1, c2] 2)
      else (case decodeQuantum [c0, c1, c2, c3] 3 of
              None \<Rightarrow> None
            | Some bs \<Rightarrow>
                (case DecodeString s of None \<Rightarrow> None | Some rest \<Rightarrow> Some (bs @ rest))))"
| "DecodeString [] = Some []"
| "DecodeString s = None"

definition NameField :: string where "NameField = ''name''"
definition YamlField :: string where "YamlField = ''yaml''"
definition ComposeField :: string where "ComposeField = ''compose''"

record ConfigMap =
  cm_Name :: string
  cm_Labels :: "string \<rightharpoonup> string"
  cm_Data :: "string \<rightharpoonup> string"

definition translateConfigMap :: "ModelConsts \<Rightarrow> Stack \<Rightarrow> ConfigMap" where
  "translateConfigMap K s =
     \<lparr>cm_Name = GetStackConfigMapName K (stk_Name s),
      cm_Labels = [StackLabel K \<mapsto> ''true''],
      cm_Data = [NameField \<mapsto> stk_Name s,
                 YamlField \<mapsto> EncodeToString (stk_Manifest s),
                 ComposeField \<mapsto> FormatBool (stk_IsCompose s)]\<rparr>"

subsection \<open>Workload objects\<close>

text \<open>
  The Kubernetes objects, with the fields \<^verbatim>\<open>translate.go\<close> sets and the status fields the
  tests read. A field the code leaves out has Go's zero value.
\<close>

record ObjectMeta =
  om_Name :: string
  om_Namespace :: string
  om_Labels :: "string \<rightharpoonup> string"
  om_Annotations :: "string \<rightharpoonup> string"

record K8sEnvVar =
  kenv_Name :: string
  kenv_Value :: string

record VolumeMount =
  vm_Name :: string
  vm_MountPath :: string
  vm_SubPath :: string

record Capabilities =
  cap_Add :: "string list"
  cap_Drop :: "string list"

record SecurityContext =
  sc_Capabilities :: "Capabilities option"
  sc_RunAsUser :: "int option"
  sc_RunAsGroup :: "int option"

record Container =
  c_Name :: string
  c_Image :: string
  c_Command :: "string list"
  c_Args :: "string list"
  c_WorkingDir :: string
  c_Ports :: "ContainerPort list"
  c_Env :: "K8sEnvVar list"
  c_Resources :: ResourceRequirements
  c_VolumeMounts :: "VolumeMount list"
  c_ReadinessProbe :: "Probe option"
  c_ImagePullPolicy :: string
  c_SecurityContext :: "SecurityContext option"

definition zeroContainer :: Container where
  "zeroContainer =
     \<lparr>c_Name = [], c_Image = [], c_Command = [], c_Args = [], c_WorkingDir = [], c_Ports = [],
      c_Env = [], c_Resources = \<lparr>rr_Limits = None, rr_Requests = None\<rparr>, c_VolumeMounts = [],
      c_ReadinessProbe = None, c_ImagePullPolicy = [], c_SecurityContext = None\<rparr>"

text \<open>A volume backed by a claim: \<^verbatim>\<open>VolumeSource.PersistentVolumeClaim.ClaimName\<close>.\<close>

record Volume =
  v_Name :: string
  v_ClaimName :: string

text \<open>A label selector requirement is its key and operator.\<close>

record PodAffinityTerm =
  pat_MatchExpressions :: "(string \<times> string) list"
  pat_TopologyKey :: string

text \<open>\<^verbatim>\<open>PodAffinity.RequiredDuringSchedulingIgnoredDuringExecution\<close>.\<close>

record Affinity =
  aff_PodAffinityRequired :: "PodAffinityTerm list"

record PodSpec =
  ps_Volumes :: "Volume list"
  ps_InitContainers :: "Container list"
  ps_Containers :: "Container list"
  ps_RestartPolicy :: string
  ps_TerminationGracePeriodSeconds :: "int option"
  ps_Affinity :: "Affinity option"

record PodTemplateSpec =
  pt_ObjectMeta :: ObjectMeta
  pt_Spec :: PodSpec

record PersistentVolumeClaim =
  pvc_ObjectMeta :: ObjectMeta
  pvc_AccessModes :: "string list"
  pvc_Requests :: ResourceList
  pvc_StorageClassName :: "string option"

record DeploymentSpec =
  ds_Replicas :: "int option"
  ds_Selector :: "string \<rightharpoonup> string"
  ds_Template :: PodTemplateSpec
  ds_Strategy :: string

record DeploymentStatus =
  dst_ReadyReplicas :: int

record Deployment =
  d_ObjectMeta :: ObjectMeta
  d_Spec :: DeploymentSpec
  d_Status :: DeploymentStatus

record StatefulSetSpec =
  ss_Replicas :: "int option"
  ss_Selector :: "string \<rightharpoonup> string"
  ss_Template :: PodTemplateSpec
  ss_VolumeClaimTemplates :: "PersistentVolumeClaim list"
  ss_ServiceName :: string
  ss_UpdateStrategy :: string
  ss_RevisionHistoryLimit :: "int option"

record StatefulSetStatus =
  sst_ReadyReplicas :: int

record StatefulSet =
  sfs_ObjectMeta :: ObjectMeta
  sfs_Spec :: StatefulSetSpec
  sfs_Status :: StatefulSetStatus

record JobSpec =
  js_Parallelism :: "int option"
  js_Completions :: "int option"
  js_BackoffLimit :: "int option"
  js_Template :: PodTemplateSpec

record JobStatus =
  jst_Active :: int
  jst_Succeeded :: int
  jst_Failed :: int

record Job =
  j_ObjectMeta :: ObjectMeta
  j_Spec :: JobSpec
  j_Status :: JobStatus

record ServiceSpec =
  ks_Ports :: "ServicePort list"
  ks_Selector :: "string \<rightharpoonup> string"
  ks_Type :: string

record K8sService =
  ksvc_ObjectMeta :: ObjectMeta
  ksvc_Spec :: ServiceSpec

definition RestartPolicyAlways :: string where "RestartPolicyAlways = ''Always''"
definition RestartPolicyNever :: string where "RestartPolicyNever = ''Never''"
definition ReadWriteOnce :: string where "ReadWriteOnce = ''ReadWriteOnce''"
definition PullIfNotPresent :: string where "PullIfNotPresent = ''IfNotPresent''"
definition ServiceTypeClusterIP :: string where "ServiceTypeClusterIP = ''ClusterIP''"
definition LabelSelectorOpExists :: string where "LabelSelectorOpExists = ''Exists''"

definition pvcName :: string where "pvcName = ''pvc''"

text \<open>Sequencing of steps that may panic.\<close>

definition bindE :: "error + 'a \<Rightarrow> ('a \<Rightarrow> error + 'b) \<Rightarrow> error + 'b" where
  "bindE m f = (case m of Inl e \<Rightarrow> Inl e | Inr x \<Rightarrow> f x)"

subsection \<open>Labels, annotations and the small translators\<close>

definition volumeMarkerLabel :: "ModelConsts \<Rightarrow> string \<Rightarrow> string" where
  "volumeMarkerLabel K localPath = StackVolumeNameLabel K @ ''-'' @ localPath"

definition translateLabels :: "ModelConsts \<Rightarrow> string \<Rightarrow> Stack \<Rightarrow> error + (string \<rightharpoonup> string)" where
  "translateLabels K svcName s =
     (case map_of (stk_Services s) svcName of
        None \<Rightarrow> Inl NilPointerDereference
      | Some svc \<Rightarrow>
          (let labels = [StackNameLabel K \<mapsto> stk_Name s, StackServiceNameLabel K \<mapsto> svcName];
               labels = labels ++ svc_Labels svc
           in Inr (foldl (\<lambda>labels volume.
                            if vol_LocalPath volume \<noteq> []
                            then labels(volumeMarkerLabel K (vol_LocalPath volume) \<mapsto> ''true'')
                            else labels)
                     labels (svc_Volumes svc))))"

definition translateLabelSelector :: "ModelConsts \<Rightarrow> string \<Rightarrow> Stack \<Rightarrow> (string \<rightharpoonup> string)" where
  "translateLabelSelector K svcName s =
     [StackNameLabel K \<mapsto> stk_Name s, StackServiceNameLabel K \<mapsto> svcName]"

definition translateVolumeLabels ::
    "ModelConsts \<Rightarrow> string \<Rightarrow> Stack \<Rightarrow> error + (string \<rightharpoonup> string)" where
  "translateVolumeLabels K volumeName s =
     (case map_of (stk_Volumes s) volumeName of
        None \<Rightarrow> Inl NilPointerDereference
      | Some volume \<Rightarrow>
          Inr ([StackNameLabel K \<mapsto> stk_Name s, StackVolumeNameLabel K \<mapsto> volumeName]
                 ++ vs_Labels volume))"

definition getAnnotations :: "ModelConsts \<Rightarrow> Environ \<Rightarrow> (string \<rightharpoonup> string)" where
  "getAnnotations K E =
     (if IsOktetoRepo E then [OktetoSampleAnnotation K \<mapsto> ''true''] else Map.empty)"

definition translateAnnotations :: "ModelConsts \<Rightarrow> Environ \<Rightarrow> Service \<Rightarrow> (string \<rightharpoonup> string)" where
  "translateAnnotations K E svc = getAnnotations K E ++ svc_Annotations svc"

definition getVolumeClaimName :: "StackVolume \<Rightarrow> string" where
  "getVolumeClaimName v = (if vol_LocalPath v \<noteq> [] then vol_LocalPath v else pvcName)"

definition translateVolumeMounts :: "Service \<Rightarrow> VolumeMount list" where
  "translateVolumeMounts svc =
     map (\<lambda>(i, v).
            \<lparr>vm_Name = getVolumeClaimName v,
             vm_MountPath = vol_RemotePath v,
             vm_SubPath = (if vol_LocalPath v \<noteq> [] then vol_LocalPath v
                           else ''data-'' @ showInt (int i))\<rparr>)
         (enumerate 0 (svc_Volumes svc))"

definition translateVolumes :: "Service \<Rightarrow> Volume list" where
  "translateVolumes svc =
     map (\<lambda>volume. \<lparr>v_Name = getVolumeClaimName volume, v_ClaimName = vol_LocalPath volume\<rparr>)
         (svc_Volumes svc)"

definition translateSecurityContext :: "Service \<Rightarrow> SecurityContext option" where
  "translateSecurityContext svc =
     (if length (svc_CapAdd svc) = 0 \<and> length (svc_CapDrop svc) = 0 \<and> svc_User svc = None
      then None
      else
        (let capabilities = \<lparr>cap_Add = [], cap_Drop = []\<rparr>;
             capabilities = (if length (svc_CapAdd svc) > 0
                             then capabilities\<lparr>cap_Add := svc_CapAdd svc\<rparr> else capabilities);
             capabilities = (if length (svc_CapDrop svc) > 0
                             then capabilities\<lparr>cap_Drop := svc_CapDrop svc\<rparr> else capabilities);
             result = \<lparr>sc_Capabilities = Some capabilities, sc_RunAsUser = None,
                       sc_RunAsGroup = None\<rparr>
         in Some (case svc_User svc of
                    None \<Rightarrow> result
                  | Some user \<Rightarrow>
                      result\<lparr>sc_RunAsUser := usr_RunAsUser user,
                             sc_RunAsGroup := usr_RunAsGroup user\<rparr>)))"

definition translateStorageClass :: "string \<Rightarrow> string option" where
  "translateStorageClass className = (if className \<noteq> [] then Some className else None)"

definition translateServiceEnvironment :: "Service \<Rightarrow> K8sEnvVar list" where
  "translateServiceEnvironment svc =
     map (\<lambda>e. \<lparr>kenv_Name = env_Name e, kenv_Value = env_Value e\<rparr>)
         (filter (\<lambda>e. env_Name e \<noteq> []) (svc_Environment svc))"

definition translateAffinity :: "ModelConsts \<Rightarrow> Service \<Rightarrow> Affinity option" where
  "translateAffinity K svc =
     (let requirements =
            map (\<lambda>volume.
                   \<lparr>pat_MatchExpressions =
                      [(volumeMarkerLabel K (vol_LocalPath volume), LabelSelectorOpExists)],
                    pat_TopologyKey = ''kubernetes.io/hostname''\<rparr>)
                (filter (\<lambda>volume. vol_LocalPath volume \<noteq> []) (svc_Volumes svc))
      in if length requirements > 0 then Some \<lparr>aff_PodAffinityRequired = requirements\<rparr>
         else None)"

subsection \<open>Init containers\<close>

text \<open>
  The loop of \<^verbatim>\<open>getInitContainerCommandAndVolumeMounts\<close>; its state is the mounts, the
  command and the two flags.
\<close>

definition permissionsStep ::
    "StackVolume \<Rightarrow> VolumeMount list \<times> string \<times> bool \<times> bool \<Rightarrow>
     VolumeMount list \<times> string \<times> bool \<times> bool" where
  "permissionsStep volume st =
     (case st of (volumeMounts, command, addedVolumesVolume, addedDataVolume) \<Rightarrow>
        (let volumeName = getVolumeClaimName volume in
         if volumeName \<noteq> pvcName
         then (let volumeMounts = volumeMounts @
                     [\<lparr>vm_Name = volumeName, vm_MountPath = ''/volumes/'' @ volumeName,
                       vm_SubPath = []\<rparr>]
               in if \<not> addedVolumesVolume
                  then (if command = []
                        then (volumeMounts, ''chmod 777 /volumes/*'', True, addedDataVolume)
                        else (volumeMounts, command @ '' && chmod 777 /volumes/*'',
                              addedVolumesVolume, addedDataVolume))
                  else (volumeMounts, command, addedVolumesVolume, addedDataVolume))
         else if \<not> addedDataVolume
         then (let volumeMounts = volumeMounts @
                     [\<lparr>vm_Name = volumeName, vm_MountPath = ''/data'', vm_SubPath = []\<rparr>]
               in if command = []
                  then (volumeMounts, ''chmod 777 /data'', addedVolumesVolume, True)
                  else (volumeMounts, command @ '' && chmod 777 /data'',
                        addedVolumesVolume, addedDataVolume))
         else st))"

definition getInitContainerCommandAndVolumeMounts :: "Service \<Rightarrow> string list \<times> VolumeMount list" where
  "getInitContainerCommandAndVolumeMounts svc =
     (case foldl (\<lambda>st volume. permissionsStep volume st) ([], [], False, False) (svc_Volumes svc)
      of (volumeMounts, command, addedVolumesVolume, addedDataVolume) \<Rightarrow>
           ([''sh'', ''-c'', command], volumeMounts))"

definition getAddPermissionsInitContainer :: "string \<Rightarrow> Service \<Rightarrow> Container" where
  "getAddPermissionsInitContainer svcName svc =
     (case getInitContainerCommandAndVolumeMounts svc of
        (initContainerCommand, initContainerVolumeMounts) \<Rightarrow>
          zeroContainer\<lparr>c_Name := ''init-'' @ svcName,
                        c_Image := ''busybox'',
                        c_Command := initContainerCommand,
                        c_VolumeMounts := initContainerVolumeMounts\<rparr>)"

text \<open>The loop of \<^verbatim>\<open>getInitializeVolumeContentContainer\<close> over the indexed volumes.\<close>

definition initVolumeStep ::
    "string \<Rightarrow> nat \<times> StackVolume \<Rightarrow> VolumeMount list \<times> string \<Rightarrow> VolumeMount list \<times> string" where
  "initVolumeStep svcImage iv st =
     (case (iv, st) of ((idx, v), (volumeMounts, initContainerCmd)) \<Rightarrow>
        (let volumeClaimName = getVolumeClaimName v;
             displayVolumeInfoCmd =
               ''echo initializing volume '' @ volumeClaimName @
               '' with content of the image '' @ svcImage @ ''...'';
             subpath = (if vol_LocalPath v \<noteq> [] then vol_LocalPath v
                        else ''data-'' @ showInt (int idx));
             volumeMounts = volumeMounts @
               [\<lparr>vm_Name = volumeClaimName,
                 vm_MountPath = ''/init-volume-'' @ showInt (int idx),
                 vm_SubPath = subpath\<rparr>];
             copyVolumeCmd =
               ''cp -Rv '' @ vol_RemotePath v @ ''/. /init-volume-'' @ showInt (int idx) @
               '' 2>&1 | sed -E '' @ sq @
               ''s/cp: cannot stat (.*): No such file or directory/the image '' @ sq @ svcImage @ sq @
               '' does not have any content in '' @ backslash @ ''1/g'' @ sq;
             volumeInitCmd = displayVolumeInfoCmd @ '' && ('' @ copyVolumeCmd @ '' || true)'';
             initContainerCmd = (if initContainerCmd \<noteq> [] then initContainerCmd @ '' &&''
                                 else initContainerCmd);
             initContainerCmd = TrimSpace (initContainerCmd @ '' '' @ volumeInitCmd)
         in (volumeMounts, initContainerCmd)))"

definition getInitializeVolumeContentContainer :: "string \<Rightarrow> Service \<Rightarrow> Container option" where
  "getInitializeVolumeContentContainer svcName svc =
     (let c = zeroContainer\<lparr>c_Name := ''init-volume-'' @ svcName,
                             c_Image := svc_Image svc,
                             c_ImagePullPolicy := PullIfNotPresent,
                             c_VolumeMounts := []\<rparr>
      in case foldl (\<lambda>st iv. initVolumeStep (svc_Image svc) iv st) ([], [])
                (enumerate 0 (svc_Volumes svc))
         of (volumeMounts, initContainerCmd) \<Rightarrow>
              if length volumeMounts \<noteq> 0
              then Some (c\<lparr>c_VolumeMounts := volumeMounts,
                           c_Command := [''sh'', ''-c'', initContainerCmd]\<rparr>)
              else None)"

definition getInitContainers :: "string \<Rightarrow> Stack \<Rightarrow> error + Container list" where
  "getInitContainers svcName s =
     (case map_of (stk_Services s) svcName of
        None \<Rightarrow> Inl NilPointerDereference
      | Some svc \<Rightarrow>
          (let initContainers = [];
               initContainers =
                 (if length (svc_Volumes svc) > 0
                  then initContainers @ [getAddPermissionsInitContainer svcName svc]
                  else initContainers)
           in Inr (case getInitializeVolumeContentContainer svcName svc of
                     Some initializationContainer \<Rightarrow> initContainers @ [initializationContainer]
                   | None \<Rightarrow> initContainers)))"

subsection \<open>Volume claims\<close>

definition translatePersistentVolumeClaim ::
    "ModelConsts \<Rightarrow> string \<Rightarrow> Stack \<Rightarrow> error + PersistentVolumeClaim" where
  "translatePersistentVolumeClaim K volumeName s =
     bindE (translateVolumeLabels K volumeName s) (\<lambda>labels.
       case map_of (stk_Volumes s) volumeName of
         None \<Rightarrow> Inl NilPointerDereference
       | Some volumeSpec \<Rightarrow>
           Inr \<lparr>pvc_ObjectMeta =
                  \<lparr>om_Name = volumeName, om_Namespace = stk_Namespace s, om_Labels = labels,
                   om_Annotations = vs_Annotations volumeSpec\<rparr>,
                pvc_AccessModes = [ReadWriteOnce],
                pvc_Requests = [ResourceStorage \<mapsto> vs_Size volumeSpec],
                pvc_StorageClassName = translateStorageClass (vs_Class volumeSpec)\<rparr>)"

definition translateVolumeClaimTemplates ::
    "ModelConsts \<Rightarrow> Environ \<Rightarrow> string \<Rightarrow> Stack \<Rightarrow> error + PersistentVolumeClaim list" where
  "translateVolumeClaimTemplates K E svcName s =
     (case map_of (stk_Services s) svcName of
        None \<Rightarrow> Inl NilPointerDereference
      | Some svc \<Rightarrow>
          if list_ex (\<lambda>volume. vol_LocalPath volume = []) (svc_Volumes svc)
          then bindE (translateLabels K svcName s) (\<lambda>labels.
                 case svc_Resources svc of
                   None \<Rightarrow> Inl NilPointerDereference
                 | Some r \<Rightarrow>
                     Inr [\<lparr>pvc_ObjectMeta =
                             \<lparr>om_Name = pvcName, om_Namespace = [], om_Labels = labels,
                              om_Annotations = translateAnnotations K E svc\<rparr>,
                           pvc_AccessModes = [ReadWriteOnce],
                           pvc_Requests =
                             [ResourceStorage \<mapsto> stor_Size (sr_Storage (res_Requests r))],
                           pvc_StorageClassName =
                             translateStorageClass
                               (stor_Class (sr_Storage (res_Requests r)))\<rparr>])
          else Inr [])"

subsection \<open>The workload translators\<close>

text \<open>
  Each of them looks the service up by name (a missing one is a \<^verbatim>\<open>nil\<close> pointer, which the
  first use dereferences), builds the object, and through \<^verbatim>\<open>translateContainerPorts\<close>
  leaves the service with its ports sorted: the stack after the call is returned beside
  the object.
\<close>

definition mainContainer ::
    "string \<Rightarrow> Service \<Rightarrow> ContainerPort list \<Rightarrow> VolumeMount list \<Rightarrow> Probe option \<Rightarrow> Container" where
  "mainContainer svcName svc ports volumeMounts healthcheckProbe =
     \<lparr>c_Name = svcName,
      c_Image = svc_Image svc,
      c_Command = svc_Entrypoint svc,
      c_Args = svc_Command svc,
      c_WorkingDir = svc_Workdir svc,
      c_Ports = ports,
      c_Env = translateServiceEnvironment svc,
      c_Resources = translateResources svc,
      c_VolumeMounts = volumeMounts,
      c_ReadinessProbe = healthcheckProbe,
      c_ImagePullPolicy = [],
      c_SecurityContext = translateSecurityContext svc\<rparr>"

definition storeService :: "string \<Rightarrow> Service \<Rightarrow> Stack \<Rightarrow> Stack" where
  "storeService svcName svc s = s\<lparr>stk_Services := AList.update svcName svc (stk_Services s)\<rparr>"

definition translateDeployment ::
    "ModelConsts \<Rightarrow> Environ \<Rightarrow> string \<Rightarrow> Stack \<Rightarrow> error + (Deployment \<times> Stack)" where
  "translateDeployment K E svcName s =
     (case map_of (stk_Services s) svcName of
        None \<Rightarrow> Inl NilPointerDereference
      | Some svc \<Rightarrow>
          bindE (getSvcProbe svc) (\<lambda>healthcheckProbe.
          bindE (translateLabels K svcName s) (\<lambda>labels.
            case translateContainerPorts E svc of (ports, svc') \<Rightarrow>
              Inr (\<lparr>d_ObjectMeta =
                      \<lparr>om_Name = svcName, om_Namespace = stk_Namespace s, om_Labels = labels,
                       om_Annotations = translateAnnotations K E svc\<rparr>,
                    d_Spec =
                      \<lparr>ds_Replicas = Some (svc_Replicas svc),
                       ds_Selector = translateLabelSelector K svcName s,
                       ds_Template =
                         \<lparr>pt_ObjectMeta =
                            \<lparr>om_Name = [], om_Namespace = [], om_Labels = labels,
                             om_Annotations = translateAnnotations K E svc\<rparr>,
                          pt_Spec =
                            \<lparr>ps_Volumes = [], ps_InitContainers = [],
                             ps_Containers = [mainContainer svcName svc ports [] healthcheckProbe],
                             ps_RestartPolicy = [],
                             ps_TerminationGracePeriodSeconds = Some (svc_StopGracePeriod svc),
                             ps_Affinity = None\<rparr>\<rparr>,
                       ds_Strategy = getDeploymentUpdateStrategy K E svc\<rparr>,
                    d_Status = \<lparr>dst_ReadyReplicas = 0\<rparr>\<rparr>,
                   storeService svcName svc' s))))"

definition translateStatefulSet ::
    "ModelConsts \<Rightarrow> Environ \<Rightarrow> string \<Rightarrow> Stack \<Rightarrow> error + (StatefulSet \<times> Stack)" where
  "translateStatefulSet K E svcName s =
     (case map_of (stk_Services s) svcName of
        None \<Rightarrow> Inl NilPointerDereference
      | Some svc \<Rightarrow>
          bindE (getInitContainers svcName s) (\<lambda>initContainers.
          bindE (getSvcProbe svc) (\<lambda>healthcheckProbe.
          bindE (translateLabels K svcName s) (\<lambda>labels.
            case translateContainerPorts E svc of (ports, svc') \<Rightarrow>
              bindE (translateVolumeClaimTemplates K E svcName (storeService svcName svc' s))
                (\<lambda>volumeClaimTemplates.
              Inr (\<lparr>sfs_ObjectMeta =
                      \<lparr>om_Name = svcName, om_Namespace = stk_Namespace s, om_Labels = labels,
                       om_Annotations = translateAnnotations K E svc\<rparr>,
                    sfs_Spec =
                      \<lparr>ss_Replicas = Some (svc_Replicas svc),
                       ss_Selector = translateLabelSelector K svcName s,
                       ss_Template =
                         \<lparr>pt_ObjectMeta =
                            \<lparr>om_Name = [], om_Namespace = [], om_Labels = labels,
                             om_Annotations = translateAnnotations K E svc\<rparr>,
                          pt_Spec =
                            \<lparr>ps_Volumes = translateVolumes svc,
                             ps_InitContainers = initContainers,
                             ps_Containers =
                               [mainContainer svcName svc ports (translateVolumeMounts svc)
                                  healthcheckProbe],
                             ps_RestartPolicy = [],
                             ps_TerminationGracePeriodSeconds = Some (svc_StopGracePeriod svc),
                             ps_Affinity = translateAffinity K svc\<rparr>\<rparr>,
                       ss_VolumeClaimTemplates = volumeClaimTemplates,
                       ss_ServiceName = svcName,
                       ss_UpdateStrategy = getStatefulsetUpdateStrategy K E svc,
                       ss_RevisionHistoryLimit = Some 2\<rparr>,
                    sfs_Status = \<lparr>sst_ReadyReplicas = 0\<rparr>\<rparr>,
                   storeService svcName svc' s))))))"

definition translateJob ::
    "ModelConsts \<Rightarrow> Environ \<Rightarrow> string \<Rightarrow> Stack \<Rightarrow> error + (Job \<times> Stack)" where
  "translateJob K E svcName s =
     (case map_of (stk_Services s) svcName of
        None \<Rightarrow> Inl NilPointerDereference
      | Some svc \<Rightarrow>
          bindE (getInitContainers svcName s) (\<lambda>initContainers.
          bindE (getSvcProbe svc) (\<lambda>healthcheckProbe.
          bindE (translateLabels K svcName s) (\<lambda>labels.
            case translateContainerPorts E svc of (ports, svc') \<Rightarrow>
              Inr (\<lparr>j_ObjectMeta =
                      \<lparr>om_Name = svcName, om_Namespace = stk_Namespace s, om_Labels = labels,
                       om_Annotations = translateAnnotations K E svc\<rparr>,
                    j_Spec =
                      \<lparr>js_Parallelism = Some 1,
                       js_Completions = Some (svc_Replicas svc),
                       js_BackoffLimit = Some (svc_BackOffLimit svc),
                       js_Template =
                         \<lparr>pt_ObjectMeta =
                            \<lparr>om_Name = [], om_Namespace = [], om_Labels = labels,
                             om_Annotations = translateAnnotations K E svc\<rparr>,
                          pt_Spec =
                            \<lparr>ps_Volumes = translateVolumes svc,
                             ps_InitContainers = initContainers,
                             ps_Containers =
                               [mainContainer svcName svc ports (translateVolumeMounts svc)
                                  healthcheckProbe],
                             ps_RestartPolicy = svc_RestartPolicy svc,
                             ps_TerminationGracePeriodSeconds = Some (svc_StopGracePeriod svc),
                             ps_Affinity = translateAffinity K svc\<rparr>\<rparr>\<rparr>,
                    j_Status = \<lparr>jst_Active = 0, jst_Succeeded = 0, jst_Failed = 0\<rparr>\<rparr>,
                   storeService svcName svc' s)))))"

definition translateService ::
    "ModelConsts \<Rightarrow> Environ \<Rightarrow> string \<Rightarrow> Stack \<Rightarrow> error + K8sService" where
  "translateService K E svcName s =
     (case map_of (stk_Services s) svcName of
        None \<Rightarrow> Inl NilPointerDereference
      | Some svc \<Rightarrow>
          (let annotations = translateAnnotations K E svc in
           bindE (translateLabels K svcName s) (\<lambda>labels.
             Inr \<lparr>ksvc_ObjectMeta =
                    \<lparr>om_Name = svcName, om_Namespace = stk_Namespace s, om_Labels = labels,
                     om_Annotations = annotations\<rparr>,
                  ksvc_Spec =
                    \<lparr>ks_Ports = translateServicePorts svc,
                     ks_Selector = translateLabelSelector K svcName s,
                     ks_Type = ServiceTypeClusterIP\<rparr>\<rparr>)))"

text \<open>Inputs on which the model is run below.\<close>

definition exampleEnviron :: Environ where
  "exampleEnviron =
     \<lparr>IsOktetoRepo = False, UpdateStrategyEnvVar = [],
      SortSlicePorts = sort_key port_ContainerPort\<rparr>"

text \<open>
  A service that publishes its port 8080 on host port 80 and, after it, declares the
  port 80; and the same service with the two ports in ascending order.
\<close>

definition portsService :: Service where
  "portsService =
     zeroService\<lparr>svc_Image := ''test_image'', svc_RestartPolicy := ''Always'',
       svc_Ports := [\<lparr>port_HostPort = 80, port_ContainerPort = 8080, port_Protocol = ''TCP''\<rparr>,
                     \<lparr>port_HostPort = 0, port_ContainerPort = 80, port_Protocol = ''TCP''\<rparr>]\<rparr>"

definition portsServiceSorted :: Service where
  "portsServiceSorted =
     zeroService\<lparr>svc_Image := ''test_image'', svc_RestartPolicy := ''Always'',
       svc_Ports := [\<lparr>port_HostPort = 0, port_ContainerPort = 80, port_Protocol = ''TCP''\<rparr>,
                     \<lparr>port_HostPort = 80, port_ContainerPort = 8080, port_Protocol = ''TCP''\<rparr>]\<rparr>"

definition portsStack :: Stack where
  "portsStack =
     \<lparr>stk_Manifest = [], stk_Volumes = [], stk_Services = [(''test'', portsService)],
      stk_Name = ''stack-test'', stk_Namespace = ''ns'', stk_IsCompose = False\<rparr>"

text \<open>The stack a translator leaves behind, when it returns.\<close>

definition stackAfter :: "error + ('a \<times> Stack) \<Rightarrow> Stack option" where
  "stackAfter r = (case r of Inl e \<Rightarrow> None | Inr (obj, s') \<Rightarrow> Some s')"

text \<open>The port and target port of each entry of a translated service.\<close>

definition servicePortsOf :: "error + K8sService \<Rightarrow> (int \<times> int) list option" where
  "servicePortsOf r =
     (case r of
        Inl e \<Rightarrow> None
      | Inr svc \<Rightarrow> Some (map (\<lambda>p. (sp_Port p, sp_TargetPort p)) (ks_Ports (ksvc_Spec svc))))"

subsection \<open>The cluster and the deployer\<close>

text \<open>
  The file \<^verbatim>\<open>deploy.go\<close> of package \<^verbatim>\<open>stack\<close> is not at hand: only its tests are
  (\<^verbatim>\<open>Test_deploySvc\<close>, \<^verbatim>\<open>TestDeployK8sService\<close>, \<^verbatim>\<open>Test_AddSomeServices\<close>,
  \<^verbatim>\<open>TestGetErrorDueToRestartLimit\<close>). Its functions are modelled from the specification,
  sections 4.2 to 4.5 and 8, over the translators above.

  The cluster is a store of objects by kind, namespace and name, and a list of pods, as
  the fake client of the tests is: no request to it fails.
\<close>

record Pod =
  pod_Namespace :: string
  pod_Labels :: "string \<rightharpoonup> string"
  pod_RestartCounts :: "int list"

record Cluster =
  cl_Deployments :: "string \<times> string \<rightharpoonup> Deployment"
  cl_StatefulSets :: "string \<times> string \<rightharpoonup> StatefulSet"
  cl_Jobs :: "string \<times> string \<rightharpoonup> Job"
  cl_Services :: "string \<times> string \<rightharpoonup> K8sService"
  cl_Pods :: "Pod list"

definition emptyCluster :: Cluster where
  "emptyCluster =
     \<lparr>cl_Deployments = Map.empty, cl_StatefulSets = Map.empty, cl_Jobs = Map.empty,
      cl_Services = Map.empty, cl_Pods = []\<rparr>"

datatype Kind = KDeployment | KStatefulSet | KJob

text \<open>
  Modelled from the spec: the resource kind selector of section 4.2 (the methods
  \<^verbatim>\<open>IsJob\<close>, \<^verbatim>\<open>IsStatefulset\<close>, \<^verbatim>\<open>IsDeployment\<close> of \<^verbatim>\<open>model.Service\<close> and the switch of
  \<^verbatim>\<open>deploySvc\<close> are missing). Job if RestartPolicy is Never, else StatefulSet if any volume
  has a non-empty LocalPath, else Deployment.
\<close>

definition kind :: "Service \<Rightarrow> Kind" where
  "kind svc =
     (if svc_RestartPolicy svc = RestartPolicyNever then KJob
      else if list_ex (\<lambda>v. vol_LocalPath v \<noteq> []) (svc_Volumes svc) then KStatefulSet
      else KDeployment)"

text \<open>
  Modelled from the spec: the ownership rule of section 4.3, on the labels of the object
  found in the cluster. The object is foreign when its stack-name label differs from the
  name of the stack; an object without that label is not.
\<close>

definition foreignOwner :: "ModelConsts \<Rightarrow> Stack \<Rightarrow> ObjectMeta \<Rightarrow> bool" where
  "foreignOwner K s meta =
     (case om_Labels meta (StackNameLabel K) of
        None \<Rightarrow> False
      | Some owner \<Rightarrow> owner \<noteq> stk_Name s)"

text \<open>
  Modelled from the spec: the in-place update of section 4.3 refreshes the stack-name and
  deployed-by labels of the object found to the name of the stack. (The revision marker
  of that section is not a field of the objects modelled here.)
\<close>

definition refreshLabels :: "ModelConsts \<Rightarrow> Stack \<Rightarrow> ObjectMeta \<Rightarrow> ObjectMeta" where
  "refreshLabels K s meta =
     meta\<lparr>om_Labels :=
       (om_Labels meta)(StackNameLabel K \<mapsto> stk_Name s, DeployedByLabel K \<mapsto> stk_Name s)\<rparr>"

text \<open>
  Modelled from the spec: \<^verbatim>\<open>deployK8sService\<close> (section 4.3, and the three scenarios of
  section 8). The object is fetched by namespace and name; absent, the translated
  service is created; foreign, nothing is changed and the call succeeds; otherwise the
  spec of the object is replaced and its two labels refreshed.
\<close>

definition deployK8sService ::
    "ModelConsts \<Rightarrow> Environ \<Rightarrow> string \<Rightarrow> Stack \<Rightarrow> Cluster \<Rightarrow> error + Cluster" where
  "deployK8sService K E svcName s c =
     (case cl_Services c (stk_Namespace s, svcName) of
        None \<Rightarrow>
          bindE (translateService K E svcName s) (\<lambda>svcK8s.
            Inr (c\<lparr>cl_Services := (cl_Services c)((stk_Namespace s, svcName) \<mapsto> svcK8s)\<rparr>))
      | Some old \<Rightarrow>
          if foreignOwner K s (ksvc_ObjectMeta old) then Inr c
          else bindE (translateService K E svcName s) (\<lambda>svcK8s.
                 Inr (c\<lparr>cl_Services := (cl_Services c)((stk_Namespace s, svcName) \<mapsto>
                        old\<lparr>ksvc_ObjectMeta := refreshLabels K s (ksvc_ObjectMeta old),
                            ksvc_Spec := ksvc_Spec svcK8s\<rparr>)\<rparr>)))"






subsection \<open>Health evaluation and the dependency closure\<close>

text \<open>
  Modelled from the spec: \<^verbatim>\<open>IsRunning\<close> of section 4.5 (\<^verbatim>\<open>isSvcRunning\<close> is missing). A Job
  runs when its Active count is positive, a Deployment or StatefulSet when its ready
  replica count is; an object that does not exist does not run.
\<close>

definition IsRunning :: "Stack \<Rightarrow> string \<Rightarrow> Cluster \<Rightarrow> bool" where
  "IsRunning s svcName c =
     (case map_of (stk_Services s) svcName of
        None \<Rightarrow> False
      | Some svc \<Rightarrow>
          (case kind svc of
             KJob \<Rightarrow>
               (case cl_Jobs c (stk_Namespace s, svcName) of
                  None \<Rightarrow> False | Some job \<Rightarrow> 0 < jst_Active (j_Status job))
           | KStatefulSet \<Rightarrow>
               (case cl_StatefulSets c (stk_Namespace s, svcName) of
                  None \<Rightarrow> False | Some sfs \<Rightarrow> 0 < sst_ReadyReplicas (sfs_Status sfs))
           | KDeployment \<Rightarrow>
               (case cl_Deployments c (stk_Namespace s, svcName) of
                  None \<Rightarrow> False | Some d \<Rightarrow> 0 < dst_ReadyReplicas (d_Status d))))"

text \<open>
  Modelled from the spec: when a dependency counts as satisfied for the closure of
  section 4.4. By section 8 and \<^verbatim>\<open>Test_AddSomeServices\<close> a running dependency is satisfied,
  and so is a Job that has succeeded; a Job that has only failed is not.
\<close>

definition dependencySatisfied :: "Stack \<Rightarrow> Cluster \<Rightarrow> string \<Rightarrow> bool" where
  "dependencySatisfied s c dep =
     (IsRunning s dep c \<or>
      (case map_of (stk_Services s) dep of
         None \<Rightarrow> False
       | Some svc \<Rightarrow>
           kind svc = KJob \<and>
           (case cl_Jobs c (stk_Namespace s, dep) of
              None \<Rightarrow> False | Some job \<Rightarrow> 0 < jst_Succeeded (j_Status job))))"

text \<open>
  Modelled from the spec: the entries of a service's DependsOn map (section 4.4), in the
  order the map is iterated; a name the stack does not define has none.
\<close>

definition dependenciesOf :: "Stack \<Rightarrow> string \<Rightarrow> string list" where
  "dependenciesOf s svcName =
     (case map_of (stk_Services s) svcName of
        None \<Rightarrow> []
      | Some svc \<Rightarrow> map fst (svc_DependsOn svc))"

text \<open>
  Modelled from the spec: one step of the closure of section 4.4. A dependency that is
  not in the result and is not satisfied is appended to it.
\<close>

definition addIfNeeded :: "Stack \<Rightarrow> Cluster \<Rightarrow> string list \<Rightarrow> string \<Rightarrow> string list" where
  "addIfNeeded s c result dep =
     (if dep \<notin> set result \<and> \<not> dependencySatisfied s c dep then result @ [dep] else result)"

text \<open>Every name some service of the stack depends on: a finite set, which bounds the closure.\<close>

definition dependencyNames :: "Stack \<Rightarrow> string set" where
  "dependencyNames s = set (concat (map (\<lambda>(n, svc). map fst (svc_DependsOn svc)) (stk_Services s)))"

text \<open>
  The closure is a worklist over the result: position \<open>i\<close> is scanned, its missing
  dependencies are appended, and the scan moves on until it passes the end. What bounds
  it is shown first: a scan appends only names of \<open>dependencyNames\<close> that the result lacks.
\<close>

lemma dependenciesOf_names: "set (dependenciesOf s n) \<subseteq> dependencyNames s"
proof (cases "map_of (stk_Services s) n")
  case None
  then show ?thesis by (simp add: dependenciesOf_def)
next
  case (Some svc)
  then have "(n, svc) \<in> set (stk_Services s)" by (rule map_of_SomeD)
  then show ?thesis using Some by (force simp: dependenciesOf_def dependencyNames_def)
qed

lemma foldl_addIfNeeded_measure:
  assumes "set ds \<subseteq> U" "finite U"
  shows "card (U - set (foldl (addIfNeeded s c) r ds)) + length (foldl (addIfNeeded s c) r ds) =
         card (U - set r) + length r"
  using assms(1)
proof (induction ds arbitrary: r)
  case Nil
  then show ?case by simp
next
  case (Cons d ds)
  show ?case
  proof (cases "d \<notin> set r \<and> \<not> dependencySatisfied s c d")
    case True
    then have "d \<in> U - set r" using Cons.prems by simp
    then have "card (U - set r) = Suc (card (U - set r - {d}))"
      using assms(2) by (metis card_Suc_Diff1 finite_Diff)
    moreover have "U - set (r @ [d]) = U - set r - {d}" by auto
    moreover have "addIfNeeded s c r d = r @ [d]" using True by (simp add: addIfNeeded_def)
    ultimately show ?thesis using Cons.IH[of "r @ [d]"] Cons.prems
      by simp
  next
    case False
    then have "addIfNeeded s c r d = r" by (auto simp: addIfNeeded_def)
    then show ?thesis using Cons.IH[of r] Cons.prems by simp
  qed
qed

text \<open>
  Modelled from the spec: the worklist of \<^verbatim>\<open>AddDependentServicesIfNotPresent\<close>
  (section 4.4), from position \<open>i\<close> of the result on.
\<close>

function expandFrom :: "Stack \<Rightarrow> Cluster \<Rightarrow> nat \<Rightarrow> string list \<Rightarrow> string list" where
  "expandFrom s c i result =
     (if i < length result
      then expandFrom s c (Suc i) (foldl (addIfNeeded s c) result (dependenciesOf s (result ! i)))
      else result)"
  by pat_completeness auto
termination
proof (relation
    "measure (\<lambda>(s, c, i, result). card (dependencyNames s - set result) + length result - i)")
  show "wf (measure
    (\<lambda>(s, c, i, result). card (dependencyNames s - set result) + length result - i))"
    by simp
next
  fix s c i and result :: "string list"
  assume i: "i < length result"
  let ?r = "foldl (addIfNeeded s c) result (dependenciesOf s (result ! i))"
  have "card (dependencyNames s - set ?r) + length ?r =
        card (dependencyNames s - set result) + length result"
    by (rule foldl_addIfNeeded_measure[OF dependenciesOf_names])
      (unfold dependencyNames_def, rule finite_set)
  then show "((s, c, Suc i, ?r), (s, c, i, result)) \<in>
    measure (\<lambda>(s, c, i, result). card (dependencyNames s - set result) + length result - i)"
    using i by simp
qed

text \<open>
  Modelled from the spec: \<^verbatim>\<open>AddDependentServicesIfNotPresent\<close> (section 4.4), the closure
  of the requested names under the dependencies that are not satisfied.
\<close>

definition AddDependentServicesIfNotPresent :: "Stack \<Rightarrow> string list \<Rightarrow> Cluster \<Rightarrow> string list" where
  "AddDependentServicesIfNotPresent s svcsToDeploy c = expandFrom s c 0 svcsToDeploy"

text \<open>
  What the closure has to deliver for the requested names \<open>req\<close>: the requested names,
  then names that were added, each once, none of them requested or satisfied, each a
  dependency of a name before it in the result; and nothing left to add.
\<close>

definition closedExpansion :: "Stack \<Rightarrow> Cluster \<Rightarrow> string list \<Rightarrow> string list \<Rightarrow> bool" where
  "closedExpansion s c req result \<longleftrightarrow>
     (\<exists>added. result = req @ added \<and> distinct added \<and> set added \<inter> set req = {} \<and>
        (\<forall>d\<in>set added. \<not> dependencySatisfied s c d) \<and>
        (\<forall>k<length added. \<exists>j<length req + k. added ! k \<in> set (dependenciesOf s (result ! j))) \<and>
        (\<forall>p\<in>set result. \<forall>d\<in>set (dependenciesOf s p).
            d \<in> set result \<or> dependencySatisfied s c d))"

subsection \<open>The restart budget\<close>

text \<open>
  Modelled from the spec: the pods carrying a service's identity labels (section 4.5):
  the pods of the stack's namespace labelled with the stack's name and the service's.
\<close>

definition podsOfService :: "ModelConsts \<Rightarrow> Stack \<Rightarrow> string \<Rightarrow> Cluster \<Rightarrow> Pod list" where
  "podsOfService K s svcName c =
     filter (\<lambda>p. pod_Namespace p = stk_Namespace s \<and>
                 pod_Labels p (StackNameLabel K) = Some (stk_Name s) \<and>
                 pod_Labels p (StackServiceNameLabel K) = Some svcName)
            (cl_Pods c)"

text \<open>
  Modelled from the spec: the maximum observed container restart count over some pods
  (section 4.5); it is 0 when no container is observed.
\<close>

definition maxRestartCount :: "Pod list \<Rightarrow> int" where
  "maxRestartCount pods = foldl max 0 (concat (map pod_RestartCounts pods))"

text \<open>Modelled from the spec: the error of section 4.5 for a service and a restart count.\<close>

definition restartLimitError :: "string \<Rightarrow> int \<Rightarrow> string" where
  "restartLimitError svcName n =
     ''Service '' @ sq @ svcName @ sq @ '' has been restarted '' @ showInt n @
     '' times. Please check the logs and try again''"

text \<open>
  Modelled from the spec: the loop of \<^verbatim>\<open>getErrorDueToRestartLimit\<close> over the DependsOn
  entries (section 4.5). An entry whose condition is healthy is checked against the
  BackOffLimit of the service it names; the first one at or over its limit is the error.
\<close>

fun checkRestartLimits ::
    "ModelConsts \<Rightarrow> Stack \<Rightarrow> Cluster \<Rightarrow> (string \<times> DependsOnConditionSpec) list \<Rightarrow> string option" where
  "checkRestartLimits K s c [] = None"
| "checkRestartLimits K s c ((dependingSvc, spec) # rest) =
     (if dep_Condition spec = DependsOnServiceHealthy K
      then (case map_of (stk_Services s) dependingSvc of
              None \<Rightarrow> checkRestartLimits K s c rest
            | Some svc \<Rightarrow>
                (let n = maxRestartCount (podsOfService K s dependingSvc c)
                 in if svc_BackOffLimit svc \<le> n then Some (restartLimitError dependingSvc n)
                    else checkRestartLimits K s c rest))
      else checkRestartLimits K s c rest)"

text \<open>
  Modelled from the spec: \<^verbatim>\<open>getErrorDueToRestartLimit\<close>, the \<^verbatim>\<open>CheckRestartBudget\<close> of
  section 4.5; \<open>None\<close> is \<^verbatim>\<open>nil\<close>.
\<close>

definition getErrorDueToRestartLimit ::
    "ModelConsts \<Rightarrow> Stack \<Rightarrow> string \<Rightarrow> Cluster \<Rightarrow> string option" where
  "getErrorDueToRestartLimit K s svcName c =
     (case map_of (stk_Services s) svcName of
        None \<Rightarrow> None
      | Some svc \<Rightarrow> checkRestartLimits K s c (svc_DependsOn svc))"

subsection \<open>The fixtures of the tests\<close>

definition zeroPodTemplateSpec :: PodTemplateSpec where
  "zeroPodTemplateSpec =
     \<lparr>pt_ObjectMeta = \<lparr>om_Name = [], om_Namespace = [], om_Labels = Map.empty,
                        om_Annotations = Map.empty\<rparr>,
      pt_Spec = \<lparr>ps_Volumes = [], ps_InitContainers = [], ps_Containers = [],
                  ps_RestartPolicy = [], ps_TerminationGracePeriodSeconds = None,
                  ps_Affinity = None\<rparr>\<rparr>"

definition testJob :: "string \<Rightarrow> JobStatus \<Rightarrow> Job" where
  "testJob name status =
     \<lparr>j_ObjectMeta = \<lparr>om_Name = name, om_Namespace = ''default'', om_Labels = Map.empty,
                       om_Annotations = Map.empty\<rparr>,
      j_Spec = \<lparr>js_Parallelism = None, js_Completions = None, js_BackoffLimit = None,
                 js_Template = zeroPodTemplateSpec\<rparr>,
      j_Status = status\<rparr>"

definition testStatefulSet :: "string \<Rightarrow> int \<Rightarrow> StatefulSet" where
  "testStatefulSet name ready =
     \<lparr>sfs_ObjectMeta = \<lparr>om_Name = name, om_Namespace = ''default'', om_Labels = Map.empty,
                         om_Annotations = Map.empty\<rparr>,
      sfs_Spec = \<lparr>ss_Replicas = None, ss_Selector = Map.empty, ss_Template = zeroPodTemplateSpec,
                   ss_VolumeClaimTemplates = [], ss_ServiceName = [], ss_UpdateStrategy = [],
                   ss_RevisionHistoryLimit = None\<rparr>,
      sfs_Status = \<lparr>sst_ReadyReplicas = ready\<rparr>\<rparr>"

definition testDeployment :: "string \<Rightarrow> int \<Rightarrow> Deployment" where
  "testDeployment name ready =
     \<lparr>d_ObjectMeta = \<lparr>om_Name = name, om_Namespace = ''default'', om_Labels = Map.empty,
                       om_Annotations = Map.empty\<rparr>,
      d_Spec = \<lparr>ds_Replicas = None, ds_Selector = Map.empty, ds_Template = zeroPodTemplateSpec,
                 ds_Strategy = []\<rparr>,
      d_Status = \<lparr>dst_ReadyReplicas = ready\<rparr>\<rparr>"

text \<open>The cluster of \<^verbatim>\<open>Test_AddSomeServices\<close>.\<close>

definition addServicesCluster :: Cluster where
  "addServicesCluster =
     emptyCluster
       \<lparr>cl_Deployments := [(''default'', ''dep'') \<mapsto> testDeployment ''dep'' 1],
        cl_StatefulSets := [(''default'', ''sfs'') \<mapsto> testStatefulSet ''sfs'' 1],
        cl_Jobs :=
          [(''default'', ''job-active'') \<mapsto>
             testJob ''job-active'' \<lparr>jst_Active = 1, jst_Succeeded = 0, jst_Failed = 0\<rparr>,
           (''default'', ''job-succeeded'') \<mapsto>
             testJob ''job-succeeded'' \<lparr>jst_Active = 0, jst_Succeeded = 1, jst_Failed = 0\<rparr>,
           (''default'', ''job-failed'') \<mapsto>
             testJob ''job-failed'' \<lparr>jst_Active = 0, jst_Succeeded = 0, jst_Failed = 1\<rparr>]\<rparr>"

text \<open>Its stacks: the service \<open>app\<close> depends on one other service.\<close>

definition addServicesStack :: "string \<Rightarrow> Service \<Rightarrow> Stack" where
  "addServicesStack depName depSvc =
     \<lparr>stk_Manifest = [], stk_Volumes = [],
      stk_Services =
        [(depName, depSvc),
         (''app'', zeroService\<lparr>svc_DependsOn := [(depName, \<lparr>dep_Condition = []\<rparr>)]\<rparr>)],
      stk_Name = [], stk_Namespace = ''default'', stk_IsCompose = False\<rparr>"

definition jobService :: Service where
  "jobService = zeroService\<lparr>svc_RestartPolicy := RestartPolicyNever\<rparr>"

definition sfsService :: Service where
  "sfsService =
     zeroService\<lparr>svc_Volumes := [\<lparr>vol_LocalPath = ''/'', vol_RemotePath = ''/''\<rparr>],
                  svc_RestartPolicy := RestartPolicyAlways\<rparr>"

definition depService :: Service where
  "depService = zeroService\<lparr>svc_RestartPolicy := RestartPolicyAlways\<rparr>"

text \<open>The stack and the pod of \<^verbatim>\<open>TestGetErrorDueToRestartLimit\<close>.\<close>

definition restartStack :: Stack where
  "restartStack =
     \<lparr>stk_Manifest = [], stk_Volumes = [],
      stk_Services =
        [(''test1'', zeroService\<lparr>svc_BackOffLimit := 2\<rparr>),
         (''test2'', zeroService\<lparr>svc_DependsOn :=
                       [(''test1'', \<lparr>dep_Condition = ''service_healthy''\<rparr>)]\<rparr>)],
      stk_Name = ''test'', stk_Namespace = [], stk_IsCompose = False\<rparr>"

definition restartCluster :: "int \<Rightarrow> Cluster" where
  "restartCluster n =
     emptyCluster
       \<lparr>cl_Pods :=
          [\<lparr>pod_Namespace = [],
            pod_Labels = [''stack.okteto.com/name'' \<mapsto> ''test'',
                          ''stack.okteto.com/service'' \<mapsto> ''test1''],
            pod_RestartCounts = [n]\<rparr>]\<rparr>"


definition serviceStack :: "(string \<rightharpoonup> string) \<Rightarrow> Stack" where
  "serviceStack labels =
     \<lparr>stk_Manifest = [], stk_Volumes = [],
      stk_Services = [(''test'', zeroService\<lparr>svc_Labels := labels\<rparr>)],
      stk_Name = ''test'', stk_Namespace = ''ns'', stk_IsCompose = False\<rparr>"

definition existingService :: "string \<Rightarrow> K8sService" where
  "existingService owner =
     \<lparr>ksvc_ObjectMeta = \<lparr>om_Name = ''test'', om_Namespace = ''ns'',
                          om_Labels = [''stack.okteto.com/name'' \<mapsto> owner],
                          om_Annotations = Map.empty\<rparr>,
      ksvc_Spec = \<lparr>ks_Ports = [], ks_Selector = Map.empty, ks_Type = []\<rparr>\<rparr>"

definition serviceCluster :: "string \<Rightarrow> Cluster" where
  "serviceCluster owner =
     emptyCluster\<lparr>cl_Services := [(''ns'', ''test'') \<mapsto> existingService owner]\<rparr>"

text \<open>The stack-name label of the service \<open>test\<close> of namespace \<open>ns\<close>, after a deploy.\<close>

definition nameLabelAfter :: "error + Cluster \<Rightarrow> string option" where
  "nameLabelAfter r =
     (case r of
        Inl e \<Rightarrow> None
      | Inr c \<Rightarrow>
          (case cl_Services c (''ns'', ''test'') of
             None \<Rightarrow> None
           | Some svc \<Rightarrow> om_Labels (ksvc_ObjectMeta svc) ''stack.okteto.com/name''))"

section \<open>Resources\<close>

lemma translateResources_limits_cpu:
  "emitted (rr_Limits (translateResources svc)) ResourceCPU =
     (case svc_Resources svc of None \<Rightarrow> None
      | Some r \<Rightarrow> if 0 < sr_CPU (res_Limits r) then Some (sr_CPU (res_Limits r)) else None)"
  by (simp add: translateResources_def emitted_def Let_def ResourceCPU_def ResourceMemory_def
      split: option.splits)

lemma translateResources_limits_memory:
  "emitted (rr_Limits (translateResources svc)) ResourceMemory =
     (case svc_Resources svc of None \<Rightarrow> None
      | Some r \<Rightarrow> if 0 < sr_Memory (res_Limits r) then Some (sr_Memory (res_Limits r)) else None)"
  by (simp add: translateResources_def emitted_def Let_def ResourceCPU_def ResourceMemory_def
      split: option.splits)

lemma translateResources_requests_cpu:
  "emitted (rr_Requests (translateResources svc)) ResourceCPU =
     (case svc_Resources svc of None \<Rightarrow> None
      | Some r \<Rightarrow> if 0 < sr_CPU (res_Requests r) then Some (sr_CPU (res_Requests r)) else None)"
  by (simp add: translateResources_def emitted_def Let_def ResourceCPU_def ResourceMemory_def
      split: option.splits)

text \<open>
  The memory request is stored only inside the \<^verbatim>\<open>if result.Requests == nil\<close> block, so it is
  emitted exactly when it is positive and the CPU request is not.
\<close>

lemma translateResources_requests_memory:
  "emitted (rr_Requests (translateResources svc)) ResourceMemory =
     (case svc_Resources svc of None \<Rightarrow> None
      | Some r \<Rightarrow> if 0 < sr_Memory (res_Requests r) \<and> \<not> 0 < sr_CPU (res_Requests r)
                  then Some (sr_Memory (res_Requests r)) else None)"
  by (simp add: translateResources_def emitted_def Let_def ResourceCPU_def ResourceMemory_def
      split: option.splits)

text \<open>
  C1. The claim asks that a service whose CPU request and memory request are both greater
  than zero gets both requests emitted. At CPU request 1 and memory request 1 the code
  emits the CPU request and drops the memory request, while the limits of the same
  service, written with the assignment outside the \<^verbatim>\<open>nil\<close> test, are both emitted.
\<close>

theorem translateResources_drops_memory_request:
  "emitted (rr_Requests (translateResources (svcCpuMem 1 1 1 1))) ResourceCPU = Some 1 \<and>
   emitted (rr_Requests (translateResources (svcCpuMem 1 1 1 1))) ResourceMemory = None \<and>
   emitted (rr_Limits (translateResources (svcCpuMem 1 1 1 1))) ResourceCPU = Some 1 \<and>
   emitted (rr_Limits (translateResources (svcCpuMem 1 1 1 1))) ResourceMemory = Some 1"
  by (simp add: translateResources_def emitted_def svcCpuMem_def zeroService_def Let_def
      ResourceCPU_def ResourceMemory_def)

section \<open>Update strategy\<close>

lemma spec_allowed_validate: "spec_allowed g u \<longleftrightarrow> validate g u = None"
  by (cases g)
    (auto simp: rollingUpdateStrategy_def recreateUpdateStrategy_def onDeleteUpdateStrategy_def)

lemma spec_default_getDefault: "spec_default g = getDefault g"
  by (cases g) (simp_all add: rollingUpdateStrategy_def recreateUpdateStrategy_def)

lemma spec_allowed_nonempty: "spec_allowed g u \<Longrightarrow> u \<noteq> []"
  by (cases g) auto

text \<open>
  C7. The strategy \<^verbatim>\<open>getUpdateStrategy\<close> resolves is the one the specification describes:
  the annotation when present and allowed for the kind, else the process-wide override
  when present and allowed, else the kind's default (recreate for a Deployment, rolling
  for a StatefulSet); a value outside the allowed set falls through to the next source.
\<close>

theorem getUpdateStrategy_precedence:
  "getUpdateStrategy K E svc g =
     spec_resolve (svc_Annotations svc (OktetoComposeUpdateStrategyAnnotation K)) (overrideOf E) g"
proof -
  have env: "(let result = getUpdateStrategyByEnvVar E in
              if result \<noteq> [] \<and> validate g result = None then result
              else getDefault g) =
        (case overrideOf E of
           Some v \<Rightarrow> if spec_allowed g v then v else spec_default g
         | None \<Rightarrow> spec_default g)"
    by (simp add: getUpdateStrategyByEnvVar_def overrideOf_def Let_def
        spec_allowed_validate spec_default_getDefault)
  show ?thesis
    unfolding getUpdateStrategy_def env
    using spec_allowed_nonempty[of g]
    by (auto simp: getUpdateStrategyByAnnotation_def spec_resolve_def Let_def
        spec_allowed_validate[symmetric] split: option.splits)
qed

text \<open>
  An annotation \<open>on-delete\<close> is not allowed for a Deployment and is skipped for the
  override \<open>rolling\<close>; for a StatefulSet the same annotation wins.
\<close>

theorem getUpdateStrategy_precedence_witness:
  "getUpdateStrategy exampleConsts \<lparr>IsOktetoRepo = False, UpdateStrategyEnvVar = ''rolling'',
       SortSlicePorts = sort_key port_ContainerPort\<rparr>
     (zeroService\<lparr>svc_Annotations := [''dev.okteto.com/update'' \<mapsto> ''on-delete'']\<rparr>)
     deploymentStrategyGetter = ''rolling'' \<and>
   getUpdateStrategy exampleConsts \<lparr>IsOktetoRepo = False, UpdateStrategyEnvVar = ''rolling'',
       SortSlicePorts = sort_key port_ContainerPort\<rparr>
     (zeroService\<lparr>svc_Annotations := [''dev.okteto.com/update'' \<mapsto> ''on-delete'']\<rparr>)
     statefulSetStrategyGetter = ''on-delete'' \<and>
   getUpdateStrategy exampleConsts \<lparr>IsOktetoRepo = False, UpdateStrategyEnvVar = ''bogus'',
       SortSlicePorts = sort_key port_ContainerPort\<rparr>
     zeroService deploymentStrategyGetter = ''recreate''"
  using
    getUpdateStrategy_precedence [of exampleConsts
      "\<lparr>IsOktetoRepo = False, UpdateStrategyEnvVar = ''rolling'',
       SortSlicePorts = sort_key port_ContainerPort\<rparr>"
      "zeroService\<lparr>svc_Annotations := [''dev.okteto.com/update'' \<mapsto> ''on-delete'']\<rparr>"
      deploymentStrategyGetter]
    getUpdateStrategy_precedence [of exampleConsts
      "\<lparr>IsOktetoRepo = False, UpdateStrategyEnvVar = ''rolling'',
       SortSlicePorts = sort_key port_ContainerPort\<rparr>"
      "zeroService\<lparr>svc_Annotations := [''dev.okteto.com/update'' \<mapsto> ''on-delete'']\<rparr>"
      statefulSetStrategyGetter]
    getUpdateStrategy_precedence [of exampleConsts
      "\<lparr>IsOktetoRepo = False, UpdateStrategyEnvVar = ''bogus'',
       SortSlicePorts = sort_key port_ContainerPort\<rparr>"
      zeroService deploymentStrategyGetter]
  by (simp add: spec_resolve_def overrideOf_def exampleConsts_def zeroService_def)

section \<open>Service ports\<close>

lemma isServicePortAdded_iff: "isServicePortAdded n ps \<longleftrightarrow> n \<in> sp_Port ` set ps"
  by (induction ps) auto

lemma servicePortStep_distinct:
  "distinct (map sp_Port r) \<Longrightarrow> distinct (map sp_Port (servicePortStep p r))"
  by (auto simp: servicePortStep_def Let_def isServicePortAdded_iff)

lemma servicePortStep_ports:
  "sp_Port ` set (servicePortStep p r) =
     sp_Port ` set r \<union> {port_ContainerPort p} \<union>
     (if port_HostPort p \<noteq> 0 then {port_HostPort p} else {})"
  by (auto simp: servicePortStep_def Let_def isServicePortAdded_iff)

lemma foldl_step_distinct:
  "distinct (map sp_Port r) \<Longrightarrow>
   distinct (map sp_Port (foldl (\<lambda>result p. servicePortStep p result) r ps))"
  by (induction ps arbitrary: r) (simp_all add: servicePortStep_distinct)

lemma foldl_step_ports:
  "sp_Port ` set (foldl (\<lambda>result p. servicePortStep p result) r ps) =
     sp_Port ` set r \<union> port_ContainerPort ` set ps \<union> (port_HostPort ` set ps - {0})"
proof (induction ps arbitrary: r)
  case Nil
  then show ?case by simp
next
  case (Cons p ps)
  show ?case unfolding foldl_Cons Cons.IH servicePortStep_ports by auto
qed

text \<open>
  C8. \<^verbatim>\<open>translateServicePorts\<close> emits at most one ServicePort per numeric port value
  (the port numbers of its result are pairwise distinct, and they are the container
  ports and the non-zero host ports of the service). Processing one more port \<open>p\<close>
  appends the entry \<open>p-<container>-<container>-<protocol>\<close> unless that port number is
  already present, and then, when the host port is non-zero and differs from the
  container port, the entry \<open>p-<host>-<container>-<protocol>\<close> with Port = HostPort and
  TargetPort = ContainerPort unless the host port number is already present.
\<close>

theorem translateServicePorts_dedup:
  "distinct (map sp_Port (translateServicePorts svc)) \<and>
   sp_Port ` set (translateServicePorts svc) =
     port_ContainerPort ` set (svc_Ports svc) \<union> (port_HostPort ` set (svc_Ports svc) - {0}) \<and>
   translateServicePorts (svc\<lparr>svc_Ports := []\<rparr>) = [] \<and>
   translateServicePorts (svc\<lparr>svc_Ports := svc_Ports svc @ [p]\<rparr>) =
     (let result = translateServicePorts svc;
          result =
            (if port_ContainerPort p \<in> sp_Port ` set result then result
             else result @
               [\<lparr>sp_Name = ''p-'' @ showInt (port_ContainerPort p) @ ''-'' @
                             showInt (port_ContainerPort p) @ ''-'' @ ToLower (port_Protocol p),
                 sp_Port = port_ContainerPort p, sp_TargetPort = port_ContainerPort p,
                 sp_Protocol = port_Protocol p\<rparr>])
      in if port_HostPort p \<noteq> 0 \<and> port_HostPort p \<noteq> port_ContainerPort p \<and>
            port_HostPort p \<notin> sp_Port ` set result
         then result @
               [\<lparr>sp_Name = ''p-'' @ showInt (port_HostPort p) @ ''-'' @
                             showInt (port_ContainerPort p) @ ''-'' @ ToLower (port_Protocol p),
                 sp_Port = port_HostPort p, sp_TargetPort = port_ContainerPort p,
                 sp_Protocol = port_Protocol p\<rparr>]
         else result)"
proof (intro conjI)
  show "distinct (map sp_Port (translateServicePorts svc))"
    unfolding translateServicePorts_def by (rule foldl_step_distinct) simp
  show "sp_Port ` set (translateServicePorts svc) =
     port_ContainerPort ` set (svc_Ports svc) \<union> (port_HostPort ` set (svc_Ports svc) - {0})"
    unfolding translateServicePorts_def foldl_step_ports by simp
  show "translateServicePorts (svc\<lparr>svc_Ports := []\<rparr>) = []"
    by (simp add: translateServicePorts_def)
  show "translateServicePorts (svc\<lparr>svc_Ports := svc_Ports svc @ [p]\<rparr>) =
     (let result = translateServicePorts svc;
          result =
            (if port_ContainerPort p \<in> sp_Port ` set result then result
             else result @
               [\<lparr>sp_Name = ''p-'' @ showInt (port_ContainerPort p) @ ''-'' @
                             showInt (port_ContainerPort p) @ ''-'' @ ToLower (port_Protocol p),
                 sp_Port = port_ContainerPort p, sp_TargetPort = port_ContainerPort p,
                 sp_Protocol = port_Protocol p\<rparr>])
      in if port_HostPort p \<noteq> 0 \<and> port_HostPort p \<noteq> port_ContainerPort p \<and>
            port_HostPort p \<notin> sp_Port ` set result
         then result @
               [\<lparr>sp_Name = ''p-'' @ showInt (port_HostPort p) @ ''-'' @
                             showInt (port_ContainerPort p) @ ''-'' @ ToLower (port_Protocol p),
                 sp_Port = port_HostPort p, sp_TargetPort = port_ContainerPort p,
                 sp_Protocol = port_Protocol p\<rparr>]
         else result)"
    by (simp add: translateServicePorts_def servicePortStep_def Let_def isServicePortAdded_iff
        servicePortName_def eq_commute[of "port_HostPort p" "port_ContainerPort p"])
qed

text \<open>
  A service with the port 8080 published on host port 80: adding the port 8080 on host
  port 9090 appends only the host entry, the container port being present already.
\<close>

theorem translateServicePorts_dedup_witness:
  "translateServicePorts
     (zeroService\<lparr>svc_Ports :=
        [\<lparr>port_HostPort = 80, port_ContainerPort = 8080, port_Protocol = ''TCP''\<rparr>] @
        [\<lparr>port_HostPort = 9090, port_ContainerPort = 8080, port_Protocol = ''TCP''\<rparr>]\<rparr>) =
   [\<lparr>sp_Name = ''p-8080-8080-tcp'', sp_Port = 8080, sp_TargetPort = 8080, sp_Protocol = ''TCP''\<rparr>,
    \<lparr>sp_Name = ''p-80-8080-tcp'', sp_Port = 80, sp_TargetPort = 8080, sp_Protocol = ''TCP''\<rparr>,
    \<lparr>sp_Name = ''p-9090-8080-tcp'', sp_Port = 9090, sp_TargetPort = 8080, sp_Protocol = ''TCP''\<rparr>]"
proof -
  have r: "translateServicePorts
      (zeroService\<lparr>svc_Ports :=
         [\<lparr>port_HostPort = 80, port_ContainerPort = 8080, port_Protocol = ''TCP''\<rparr>]\<rparr>) =
    [\<lparr>sp_Name = ''p-8080-8080-tcp'', sp_Port = 8080, sp_TargetPort = 8080, sp_Protocol = ''TCP''\<rparr>,
     \<lparr>sp_Name = ''p-80-8080-tcp'', sp_Port = 80, sp_TargetPort = 8080, sp_Protocol = ''TCP''\<rparr>]"
    by (simp add: translateServicePorts_def servicePortStep_def servicePortName_def showInt_def
        ToLower_def lowerChar_def Let_def)
  show ?thesis
    using translateServicePorts_dedup [of
        "zeroService\<lparr>svc_Ports :=
           [\<lparr>port_HostPort = 80, port_ContainerPort = 8080, port_Protocol = ''TCP''\<rparr>]\<rparr>"
        "\<lparr>port_HostPort = 9090, port_ContainerPort = 8080, port_Protocol = ''TCP''\<rparr>"]
    by (simp add: r showInt_def ToLower_def lowerChar_def Let_def)
qed

section \<open>Health probe\<close>

text \<open>
  C10. \<^verbatim>\<open>getSvcProbe\<close> fails with a nil dereference exactly on a service whose Healthcheck
  is present and has neither a Test command nor an HTTP section. Without a Healthcheck
  it returns no probe, with a non-empty Test an exec probe, and with an empty Test and an
  HTTP section an HTTP probe: it is total exactly under the precondition that every
  Healthcheck without a Test has an HTTP section.
\<close>

theorem getSvcProbe_nil_dereference:
  "(getSvcProbe svc = Inl NilPointerDereference \<longleftrightarrow>
      (\<exists>hc. svc_Healtcheck svc = Some hc \<and> hc_Test hc = [] \<and> hc_HTTP hc = None)) \<and>
   (svc_Healtcheck svc = None \<longrightarrow> getSvcProbe svc = Inr None) \<and>
   (\<forall>hc. svc_Healtcheck svc = Some hc \<and> hc_Test hc \<noteq> [] \<longrightarrow>
      (\<exists>p. getSvcProbe svc = Inr (Some p) \<and>
           pr_ProbeHandler p = \<lparr>ph_Exec = Some (hc_Test hc), ph_HTTPGet = None\<rparr>)) \<and>
   (\<forall>hc h. svc_Healtcheck svc = Some hc \<and> hc_Test hc = [] \<and> hc_HTTP hc = Some h \<longrightarrow>
      (\<exists>p. getSvcProbe svc = Inr (Some p) \<and>
           pr_ProbeHandler p =
             \<lparr>ph_Exec = None,
              ph_HTTPGet = Some \<lparr>hg_Path = http_Path h, hg_Port = http_Port h\<rparr>\<rparr>))"
  by (auto simp: getSvcProbe_def split: option.splits)

text \<open>A Healthcheck that sets only its timing reaches the nil dereference.\<close>

theorem getSvcProbe_nil_dereference_witness:
  "getSvcProbe
     (zeroService\<lparr>svc_Healtcheck :=
        Some \<lparr>hc_HTTP = None, hc_Test = [], hc_Interval = 5000000000, hc_Timeout = 1000000000,
              hc_Retries = 3, hc_StartPeriod = 0\<rparr>\<rparr>) = Inl NilPointerDereference \<and>
   getSvcProbe zeroService = Inr None \<and>
   (\<exists>p. getSvcProbe
          (zeroService\<lparr>svc_Healtcheck :=
             Some \<lparr>hc_HTTP = None, hc_Test = [''pg_isready''], hc_Interval = 5000000000,
                   hc_Timeout = 1000000000, hc_Retries = 3, hc_StartPeriod = 0\<rparr>\<rparr>) =
          Inr (Some p) \<and>
        pr_ProbeHandler p = \<lparr>ph_Exec = Some [''pg_isready''], ph_HTTPGet = None\<rparr>)"
  using
    getSvcProbe_nil_dereference [of
      "zeroService\<lparr>svc_Healtcheck :=
         Some \<lparr>hc_HTTP = None, hc_Test = [], hc_Interval = 5000000000, hc_Timeout = 1000000000,
               hc_Retries = 3, hc_StartPeriod = 0\<rparr>\<rparr>"]
    getSvcProbe_nil_dereference [of zeroService]
    getSvcProbe_nil_dereference [of
      "zeroService\<lparr>svc_Healtcheck :=
         Some \<lparr>hc_HTTP = None, hc_Test = [''pg_isready''], hc_Interval = 5000000000,
               hc_Timeout = 1000000000, hc_Retries = 3, hc_StartPeriod = 0\<rparr>\<rparr>"]
  by (simp add: zeroService_def)

section \<open>The configuration record\<close>

lemma distinct_encodeStd: "distinct encodeStd"
  by (simp add: encodeStd_def)

lemma length_encodeStd: "length encodeStd = 64"
  by (simp add: encodeStd_def)

lemma decode_encodeChar: "decodeChar (encodeChar v) = Some (v mod 64)"
proof -
  have "map_of (zip encodeStd [0..<64]) (encodeStd ! (v mod 64)) = Some ([0..<64] ! (v mod 64))"
    by (rule map_of_zip_nth) (simp_all add: length_encodeStd distinct_encodeStd)
  then show ?thesis by (simp add: decodeChar_def encodeChar_def del: upt_Suc)
qed

lemma encodeChar_not_pad: "encodeChar v \<noteq> CHR ''=''"
proof -
  have "encodeChar v \<in> set encodeStd"
    unfolding encodeChar_def by (rule nth_mem) (simp add: length_encodeStd)
  moreover have "CHR ''='' \<notin> set encodeStd" by (simp add: encodeStd_def)
  ultimately show ?thesis by metis
qed

text \<open>A 24-bit value is the join of its four six-bit digits.\<close>

lemma sextets:
  fixes v :: nat
  assumes "v < 16777216"
  shows "(((v div 262144) mod 64 * 64 + (v div 4096) mod 64) * 64 + (v div 64) mod 64) * 64
           + v mod 64 = v"
proof -
  define w1 where "w1 = v div 64"
  define w2 where "w2 = w1 div 64"
  define w3 where "w3 = w2 div 64"
  have e2: "v div 4096 = w2" unfolding w2_def w1_def by (simp add: div_mult2_eq[symmetric])
  have e3: "v div 262144 = w3"
    unfolding w3_def w2_def w1_def by (simp add: div_mult2_eq[symmetric])
  have "w3 < 64" using assms unfolding e3[symmetric] by simp
  then have m3: "w3 mod 64 = w3" by simp
  have s2: "w3 * 64 + w2 mod 64 = w2" unfolding w3_def by simp
  have s1: "w2 * 64 + w1 mod 64 = w1" unfolding w2_def by simp
  have s0: "w1 * 64 + v mod 64 = v" unfolding w1_def by simp
  show ?thesis unfolding e2 e3 w1_def[symmetric] m3 s2 s1 s0 ..
qed

lemma bytes_of_val:
  fixes a b c :: "8 word"
  defines "v \<equiv> unat a * 65536 + unat b * 256 + unat c"
  shows "of_nat (v div 65536) = a" "of_nat (v div 256) = b" "of_nat v = c" "v < 16777216"
proof -
  have la: "unat a < 256" and lb: "unat b < 256" and lc: "unat c < 256"
    using unsigned_less[of a, where ?'a=nat] unsigned_less[of b, where ?'a=nat]
      unsigned_less[of c, where ?'a=nat]
    by simp_all
  show "v < 16777216" using la lb lc unfolding v_def by simp
  have r: "unat b * 256 + unat c < 65536" using lb lc by simp
  have "v div 65536 = unat a" using r unfolding v_def by (simp add: add.assoc)
  then show "of_nat (v div 65536) = a" by simp
  have "v div 256 = unat a * 256 + unat b" using lc unfolding v_def by simp
  then have "(of_nat (v div 256) :: 8 word) = of_nat (unat a) * 256 + of_nat (unat b)" by simp
  moreover have z1: "(256 :: 8 word) = 0" by simp
  ultimately show "of_nat (v div 256) = b" by simp
  have z2: "(65536 :: 8 word) = 0" by simp
  have "(of_nat v :: 8 word) = of_nat (unat a) * 65536 + of_nat (unat b) * 256 + of_nat (unat c)"
    unfolding v_def by simp
  then show "of_nat v = c" by (simp add: z1 z2)
qed

lemma decodeQuantum_four:
  assumes "v < 16777216"
  shows "decodeQuantum
           [encodeChar (v div 262144), encodeChar (v div 4096), encodeChar (v div 64),
            encodeChar v] 3 =
         Some [of_nat (v div 65536), of_nat (v div 256), of_nat v]"
proof -
  let ?cs = "[encodeChar (v div 262144), encodeChar (v div 4096), encodeChar (v div 64),
              encodeChar v]"
  have all: "list_all (\<lambda>c. decodeChar c \<noteq> None) ?cs"
    by (simp add: decode_encodeChar)
  have "foldl (\<lambda>v c. v * 64 + the (decodeChar c)) 0 ?cs * 64 ^ (4 - length ?cs) =
        (((v div 262144) mod 64 * 64 + (v div 4096) mod 64) * 64 + (v div 64) mod 64) * 64
          + v mod 64"
    by (simp add: decode_encodeChar)
  also have "\<dots> = v" by (rule sextets[OF assms])
  finally have val:
    "foldl (\<lambda>v c. v * 64 + the (decodeChar c)) 0 ?cs * 64 ^ (4 - length ?cs) = v" .
  show ?thesis unfolding decodeQuantum_def Let_def val using all by simp
qed

lemma decodeQuantum_three:
  assumes "v < 16777216" "v mod 64 = 0"
  shows "decodeQuantum
           [encodeChar (v div 262144), encodeChar (v div 4096), encodeChar (v div 64)] 2 =
         Some [of_nat (v div 65536), of_nat (v div 256)]"
proof -
  let ?cs = "[encodeChar (v div 262144), encodeChar (v div 4096), encodeChar (v div 64)]"
  have all: "list_all (\<lambda>c. decodeChar c \<noteq> None) ?cs"
    by (simp add: decode_encodeChar)
  have "foldl (\<lambda>v c. v * 64 + the (decodeChar c)) 0 ?cs * 64 ^ (4 - length ?cs) =
        (((v div 262144) mod 64 * 64 + (v div 4096) mod 64) * 64 + (v div 64) mod 64) * 64
          + v mod 64"
    using assms(2) by (simp add: decode_encodeChar)
  also have "\<dots> = v" by (rule sextets[OF assms(1)])
  finally have val:
    "foldl (\<lambda>v c. v * 64 + the (decodeChar c)) 0 ?cs * 64 ^ (4 - length ?cs) = v" .
  show ?thesis unfolding decodeQuantum_def Let_def val using all by simp
qed

lemma decodeQuantum_two:
  assumes "v < 16777216" "v mod 64 = 0" "v div 64 mod 64 = 0"
  shows "decodeQuantum [encodeChar (v div 262144), encodeChar (v div 4096)] 1 =
         Some [of_nat (v div 65536)]"
proof -
  let ?cs = "[encodeChar (v div 262144), encodeChar (v div 4096)]"
  have all: "list_all (\<lambda>c. decodeChar c \<noteq> None) ?cs"
    by (simp add: decode_encodeChar)
  have "foldl (\<lambda>v c. v * 64 + the (decodeChar c)) 0 ?cs * 64 ^ (4 - length ?cs) =
        (((v div 262144) mod 64 * 64 + (v div 4096) mod 64) * 64 + (v div 64) mod 64) * 64
          + v mod 64"
    using assms(2,3) by (simp add: decode_encodeChar)
  also have "\<dots> = v" by (rule sextets[OF assms(1)])
  finally have val:
    "foldl (\<lambda>v c. v * 64 + the (decodeChar c)) 0 ?cs * 64 ^ (4 - length ?cs) = v" .
  show ?thesis unfolding decodeQuantum_def Let_def val using all by simp
qed

lemma base64_roundtrip: "DecodeString (EncodeToString src) = Some src"
proof (induction src rule: EncodeToString.induct)
  case (1 a b c src)
  define v where "v = unat a * 65536 + unat b * 256 + unat c"
  have "decodeQuantum
           [encodeChar (v div 262144), encodeChar (v div 4096), encodeChar (v div 64),
            encodeChar v] 3 =
         Some [a, b, c]"
    using decodeQuantum_four[of v] bytes_of_val[of a b c] unfolding v_def by simp
  then show ?case using 1 by (simp add: Let_def encodeChar_not_pad v_def)
next
  case (2 a b)
  define v where "v = unat a * 65536 + unat b * 256 + unat (0 :: 8 word)"
  have v: "v = unat a * 65536 + unat b * 256" by (simp add: v_def)
  have "v = 64 * (unat a * 1024 + unat b * 4)" unfolding v by simp
  then have "v mod 64 = 0" by (simp only: mod_mult_self1_is_0)
  then have "decodeQuantum
      [encodeChar (v div 262144), encodeChar (v div 4096), encodeChar (v div 64)] 2 =
         Some [a, b]"
    using decodeQuantum_three[of v] bytes_of_val[of a b 0] unfolding v_def by simp
  then show ?case by (simp add: Let_def encodeChar_not_pad v)
next
  case (3 a)
  define v where "v = unat a * 65536 + unat (0 :: 8 word) * 256 + unat (0 :: 8 word)"
  have v: "v = unat a * 65536" by (simp add: v_def)
  have "v = 64 * (unat a * 1024)" unfolding v by simp
  then have m0: "v mod 64 = 0" by (simp only: mod_mult_self1_is_0)
  have "v div 64 = 64 * (unat a * 16)" unfolding v by simp
  then have m1: "v div 64 mod 64 = 0" by (simp only: mod_mult_self1_is_0)
  have "decodeQuantum [encodeChar (v div 262144), encodeChar (v div 4096)] 1 = Some [a]"
    using decodeQuantum_two[of v] bytes_of_val[of a 0 0] m0 m1 unfolding v_def by simp
  then show ?case by (simp add: Let_def v)
next
  case 4
  then show ?case by simp
qed

text \<open>
  C9. The data of the persisted configuration record has exactly the fields \<open>name\<close>,
  \<open>yaml\<close> and \<open>compose\<close>; \<open>name\<close> is the stack's name, \<open>compose\<close> the string form of
  the IsCompose flag, and decoding \<open>yaml\<close> from base64 gives back the bytes of the
  manifest.
\<close>

theorem translateConfigMap_fields:
  "dom (cm_Data (translateConfigMap K s)) = {''name'', ''yaml'', ''compose''} \<and>
   cm_Data (translateConfigMap K s) ''name'' = Some (stk_Name s) \<and>
   cm_Data (translateConfigMap K s) ''compose'' =
     Some (if stk_IsCompose s then ''true'' else ''false'') \<and>
   (\<exists>y. cm_Data (translateConfigMap K s) ''yaml'' = Some y \<and>
        DecodeString y = Some (stk_Manifest s))"
  by (auto simp: translateConfigMap_def NameField_def YamlField_def ComposeField_def
      FormatBool_def base64_roundtrip)

text \<open>A stack named \<open>test\<close> whose manifest is the two bytes \<open>hi\<close>.\<close>

theorem translateConfigMap_fields_witness:
  "cm_Data (translateConfigMap exampleConsts
      \<lparr>stk_Manifest = [0x68, 0x69], stk_Volumes = [], stk_Services = [],
       stk_Name = ''test'', stk_Namespace = ''ns'', stk_IsCompose = True\<rparr>) =
   [''name'' \<mapsto> ''test'', ''yaml'' \<mapsto> ''aGk='', ''compose'' \<mapsto> ''true''] \<and>
   DecodeString ''aGk='' = Some [0x68, 0x69]"
proof -
  let ?s = "\<lparr>stk_Manifest = [0x68, 0x69], stk_Volumes = [], stk_Services = [],
             stk_Name = ''test'', stk_Namespace = ''ns'', stk_IsCompose = True\<rparr>"
  have y: "EncodeToString [0x68, 0x69] = ''aGk=''"
    by (simp add: encodeChar_def encodeStd_def)
  have data: "cm_Data (translateConfigMap exampleConsts ?s) =
      [''name'' \<mapsto> ''test'', ''yaml'' \<mapsto> ''aGk='', ''compose'' \<mapsto> ''true'']"
    by (simp add: translateConfigMap_def NameField_def YamlField_def ComposeField_def
        FormatBool_def y del: EncodeToString.simps)
  from translateConfigMap_fields [of exampleConsts ?s]
  obtain z where z: "cm_Data (translateConfigMap exampleConsts ?s) ''yaml'' = Some z"
    and d: "DecodeString z = Some [0x68, 0x69]"
    by (elim conjE exE) (simp del: DecodeString.simps)
  from z have "z = ''aGk=''" unfolding data by simp
  with d have "DecodeString ''aGk='' = Some [0x68, 0x69]" by (simp only:)
  with data show ?thesis by (rule conjI)
qed

section \<open>What translation does to the stack\<close>

lemma translateDeployment_stack:
  assumes "translateDeployment K E svcName s = Inr (d, s')"
  shows "\<exists>svc. map_of (stk_Services s) svcName = Some svc \<and>
               s' = storeService svcName (snd (translateContainerPorts E svc)) s"
  using assms
  by (auto simp: translateDeployment_def bindE_def split: option.splits sum.splits prod.splits)

lemma translateStatefulSet_stack:
  assumes "translateStatefulSet K E svcName s = Inr (d, s')"
  shows "\<exists>svc. map_of (stk_Services s) svcName = Some svc \<and>
               s' = storeService svcName (snd (translateContainerPorts E svc)) s"
  using assms
  by (auto simp: translateStatefulSet_def bindE_def split: option.splits sum.splits prod.splits)

lemma translateJob_stack:
  assumes "translateJob K E svcName s = Inr (d, s')"
  shows "\<exists>svc. map_of (stk_Services s) svcName = Some svc \<and>
               s' = storeService svcName (snd (translateContainerPorts E svc)) s"
  using assms
  by (auto simp: translateJob_def bindE_def split: option.splits sum.splits prod.splits)

lemma translateContainerPorts_service:
  "snd (translateContainerPorts E svc) = svc\<lparr>svc_Ports := SortSlicePorts E (svc_Ports svc)\<rparr>"
  by (simp add: translateContainerPorts_def Let_def)

text \<open>
  What the three workload translators do to the stack, whatever the sort: the Ports of
  the translated service are replaced by the slice \<^verbatim>\<open>sort.Slice\<close> leaves, and nothing else
  changes.
\<close>

lemma translate_stack_effect:
  assumes "translateDeployment K E svcName s = Inr (d, s') \<or>
           translateStatefulSet K E svcName s = Inr (sfs, s') \<or>
           translateJob K E svcName s = Inr (j, s')"
  shows "\<exists>svc. map_of (stk_Services s) svcName = Some svc \<and>
           s' = s\<lparr>stk_Services :=
                    AList.update svcName (svc\<lparr>svc_Ports := SortSlicePorts E (svc_Ports svc)\<rparr>)
                      (stk_Services s)\<rparr>"
proof -
  from assms obtain svc where svc: "map_of (stk_Services s) svcName = Some svc"
    and s': "s' = storeService svcName (snd (translateContainerPorts E svc)) s"
    using translateDeployment_stack translateStatefulSet_stack translateJob_stack by blast
  show ?thesis
    using svc unfolding s' translateContainerPorts_service storeService_def by blast
qed

text \<open>Two elements in descending order can be sorted in one way only.\<close>

lemma sorted_pair:
  assumes "mset ys = mset [a, b]" and "sorted (map f ys)" and "f b < (f a :: int)"
  shows "ys = [b, a]"
proof -
  have "length ys = length [a, b]" using assms(1) by (rule mset_eq_length)
  then have "length ys = Suc (Suc 0)" by simp
  then obtain x y where ys: "ys = [x, y]"
    by (metis (no_types) Suc_length_conv length_0_conv)
  have "set ys = set [a, b]" using assms(1) by (rule mset_eq_setD)
  then have "{x, y} = {a, b}" unfolding ys by simp
  then have "(x = a \<and> y = b) \<or> (x = b \<and> y = a)"
    by (simp add: doubleton_eq_iff)
  then show ?thesis using assms(2,3) unfolding ys by auto
qed

lemma sortSlice_portsService:
  assumes "sortSliceContract E"
  shows "SortSlicePorts E (svc_Ports portsService) = svc_Ports portsServiceSorted"
proof -
  let ?a = "\<lparr>port_HostPort = 80, port_ContainerPort = 8080, port_Protocol = ''TCP''\<rparr>"
  let ?b = "\<lparr>port_HostPort = 0, port_ContainerPort = 80, port_Protocol = ''TCP''\<rparr>"
  have "mset (SortSlicePorts E [?a, ?b]) = mset [?a, ?b]"
    and "sorted (map port_ContainerPort (SortSlicePorts E [?a, ?b]))"
    using assms unfolding sortSliceContract_def by blast+
  then have "SortSlicePorts E [?a, ?b] = [?b, ?a]"
    by (rule sorted_pair) simp
  then show ?thesis by (simp add: portsService_def portsServiceSorted_def zeroService_def)
qed

lemma sort_key_contract: "sortSliceContract exampleEnviron"
  by (simp add: sortSliceContract_def exampleEnviron_def)

text \<open>
  C6. The claim asks that a translate function leave the stack, the Ports slice of each
  service and its order included, as it was. \<^verbatim>\<open>translateContainerPorts\<close> sorts the slice in
  place, and the code breaks the claim: with any sort that meets the contract of
  \<^verbatim>\<open>sort.Slice\<close>, \<^verbatim>\<open>translateDeployment\<close> of the service with the ports 8080 (on host port
  80) and 80 returns and leaves the stack with the ports 80, 8080. The change is seen by
  the sibling translator, which reads the ports in the order it finds them and never
  sorts: \<^verbatim>\<open>translateService\<close> sends service port 80 to the target 8080 on the stack as
  given, and to the target 80 on the stack \<^verbatim>\<open>translateDeployment\<close> has left.
\<close>

theorem translateDeployment_mutates_stack:
  assumes "sortSliceContract E"
  shows "stackAfter (translateDeployment K E ''test'' portsStack) =
           Some (portsStack\<lparr>stk_Services := [(''test'', portsServiceSorted)]\<rparr>) \<and>
         portsStack\<lparr>stk_Services := [(''test'', portsServiceSorted)]\<rparr> \<noteq> portsStack \<and>
         servicePortsOf (translateService K E ''test'' portsStack) =
           Some [(8080, 8080), (80, 8080)] \<and>
         servicePortsOf (translateService K E ''test''
             (portsStack\<lparr>stk_Services := [(''test'', portsServiceSorted)]\<rparr>)) =
           Some [(80, 80), (8080, 8080)]"
proof (intro conjI)
  have sorted: "portsService\<lparr>svc_Ports := SortSlicePorts E (svc_Ports portsService)\<rparr> =
                portsServiceSorted"
    unfolding sortSlice_portsService[OF assms]
    by (simp add: portsService_def portsServiceSorted_def zeroService_def)
  have p: "getSvcProbe portsService = Inr None"
    by (simp add: getSvcProbe_def portsService_def zeroService_def)
  have "stackAfter (translateDeployment K E ''test'' portsStack) =
          Some (storeService ''test'' (snd (translateContainerPorts E portsService)) portsStack)"
    by (simp add: stackAfter_def translateDeployment_def bindE_def portsStack_def p
        translateLabels_def Let_def split: prod.splits)
  then show "stackAfter (translateDeployment K E ''test'' portsStack) =
           Some (portsStack\<lparr>stk_Services := [(''test'', portsServiceSorted)]\<rparr>)"
    unfolding translateContainerPorts_service sorted
    by (simp add: storeService_def portsStack_def)
next
  show "portsStack\<lparr>stk_Services := [(''test'', portsServiceSorted)]\<rparr> \<noteq> portsStack"
  proof
    assume "portsStack\<lparr>stk_Services := [(''test'', portsServiceSorted)]\<rparr> = portsStack"
    then have "stk_Services (portsStack\<lparr>stk_Services := [(''test'', portsServiceSorted)]\<rparr>) =
               stk_Services portsStack"
      by simp
    then have "svc_Ports portsServiceSorted = svc_Ports portsService"
      by (simp add: portsStack_def)
    then show False
      by (simp add: portsService_def portsServiceSorted_def zeroService_def)
  qed
next
  show "servicePortsOf (translateService K E ''test'' portsStack) =
          Some [(8080, 8080), (80, 8080)]"
    by (simp add: servicePortsOf_def translateService_def bindE_def translateLabels_def
        portsStack_def portsService_def zeroService_def translateServicePorts_def
        servicePortStep_def Let_def)
next
  show "servicePortsOf (translateService K E ''test''
             (portsStack\<lparr>stk_Services := [(''test'', portsServiceSorted)]\<rparr>)) =
          Some [(80, 80), (8080, 8080)]"
    by (simp add: servicePortsOf_def translateService_def bindE_def translateLabels_def
        portsStack_def portsServiceSorted_def zeroService_def translateServicePorts_def
        servicePortStep_def Let_def)
qed

text \<open>The same at \<open>exampleEnviron\<close>, whose sort meets the contract of \<^verbatim>\<open>sort.Slice\<close>.\<close>

theorem translateDeployment_mutates_stack_witness:
  "sortSliceContract exampleEnviron \<and>
   stackAfter (translateDeployment exampleConsts exampleEnviron ''test'' portsStack) =
     Some (portsStack\<lparr>stk_Services := [(''test'', portsServiceSorted)]\<rparr>) \<and>
   stackAfter (translateDeployment exampleConsts exampleEnviron ''test'' portsStack) \<noteq>
     Some portsStack"
proof -
  note t = translateDeployment_mutates_stack[OF sort_key_contract, of exampleConsts]
  have a: "stackAfter (translateDeployment exampleConsts exampleEnviron ''test'' portsStack) =
     Some (portsStack\<lparr>stk_Services := [(''test'', portsServiceSorted)]\<rparr>)"
    by (rule t[THEN conjunct1])
  have b: "stackAfter (translateDeployment exampleConsts exampleEnviron ''test'' portsStack) \<noteq>
     Some portsStack"
    unfolding a using t[THEN conjunct2, THEN conjunct1] by simp
  show ?thesis by (rule conjI[OF sort_key_contract conjI[OF a b]])
qed

section \<open>The restart budget\<close>

lemma checkRestartLimits_None:
  "checkRestartLimits K s c deps = None \<longleftrightarrow>
     (\<forall>(dep, spec)\<in>set deps. dep_Condition spec = DependsOnServiceHealthy K \<longrightarrow>
        (\<forall>svc. map_of (stk_Services s) dep = Some svc \<longrightarrow>
           maxRestartCount (podsOfService K s dep c) < svc_BackOffLimit svc))"
  by (induction deps rule: checkRestartLimits.induct[where ?a0.0 = K and ?a1.0 = s and ?a2.0 = c])
     (auto simp: Let_def split: option.splits)

lemma checkRestartLimits_Some:
  "checkRestartLimits K s c deps = Some e \<Longrightarrow>
     \<exists>dep spec svc. (dep, spec) \<in> set deps \<and> dep_Condition spec = DependsOnServiceHealthy K \<and>
        map_of (stk_Services s) dep = Some svc \<and>
        svc_BackOffLimit svc \<le> maxRestartCount (podsOfService K s dep c) \<and>
        e = restartLimitError dep (maxRestartCount (podsOfService K s dep c))"
proof (induction deps)
  case Nil
  then show ?case by simp
next
  case (Cons a deps)
  obtain dep spec where a: "a = (dep, spec)" by (cases a)
  show ?case
  proof (cases "checkRestartLimits K s c deps = Some e")
    case True
    from Cons.IH[OF True] show ?thesis by auto
  next
    case False
    then show ?thesis using Cons.prems unfolding a
      by (auto simp: Let_def split: if_splits option.splits)
  qed
qed

text \<open>
  C5. For a service of the stack, the restart-budget check returns \<^verbatim>\<open>nil\<close> when none of its
  dependencies has the condition healthy. It returns \<^verbatim>\<open>nil\<close> exactly when every healthy
  dependency has a maximum observed restart count, over the pods carrying its identity
  labels, below its BackOffLimit; and an error it returns is the text
  \<open>Service '<name>' has been restarted <n> times. Please check the logs and try again\<close>
  for a healthy dependency \<open>name\<close> whose count \<open>n\<close> has reached its limit. With a single
  healthy dependency the result is \<^verbatim>\<open>nil\<close> below the limit and that error otherwise.
\<close>

theorem getErrorDueToRestartLimit_budget:
  assumes "map_of (stk_Services s) svcName = Some svc"
  shows "((\<forall>(dep, spec)\<in>set (svc_DependsOn svc). dep_Condition spec \<noteq> DependsOnServiceHealthy K) \<longrightarrow>
            getErrorDueToRestartLimit K s svcName c = None) \<and>
         (getErrorDueToRestartLimit K s svcName c = None \<longleftrightarrow>
            (\<forall>(dep, spec)\<in>set (svc_DependsOn svc).
               dep_Condition spec = DependsOnServiceHealthy K \<longrightarrow>
               (\<forall>d. map_of (stk_Services s) dep = Some d \<longrightarrow>
                  maxRestartCount (podsOfService K s dep c) < svc_BackOffLimit d))) \<and>
         (\<forall>e. getErrorDueToRestartLimit K s svcName c = Some e \<longrightarrow>
            (\<exists>dep spec d n. (dep, spec) \<in> set (svc_DependsOn svc) \<and>
               dep_Condition spec = DependsOnServiceHealthy K \<and>
               map_of (stk_Services s) dep = Some d \<and>
               n = maxRestartCount (podsOfService K s dep c) \<and> svc_BackOffLimit d \<le> n \<and>
               e = ''Service '' @ [CHR 0x27] @ dep @ [CHR 0x27] @ '' has been restarted '' @
                   showInt n @ '' times. Please check the logs and try again'')) \<and>
         (\<forall>dep spec d. svc_DependsOn svc = [(dep, spec)] \<and>
              dep_Condition spec = DependsOnServiceHealthy K \<and>
              map_of (stk_Services s) dep = Some d \<longrightarrow>
            getErrorDueToRestartLimit K s svcName c =
              (if maxRestartCount (podsOfService K s dep c) < svc_BackOffLimit d then None
               else Some (''Service '' @ [CHR 0x27] @ dep @ [CHR 0x27] @ '' has been restarted '' @
                   showInt (maxRestartCount (podsOfService K s dep c)) @
                   '' times. Please check the logs and try again'')))"
proof -
  have r: "getErrorDueToRestartLimit K s svcName c = checkRestartLimits K s c (svc_DependsOn svc)"
    using assms by (simp add: getErrorDueToRestartLimit_def)
  have n: "getErrorDueToRestartLimit K s svcName c = None \<longleftrightarrow>
            (\<forall>(dep, spec)\<in>set (svc_DependsOn svc).
               dep_Condition spec = DependsOnServiceHealthy K \<longrightarrow>
               (\<forall>d. map_of (stk_Services s) dep = Some d \<longrightarrow>
                  maxRestartCount (podsOfService K s dep c) < svc_BackOffLimit d))"
    unfolding r by (rule checkRestartLimits_None)
  have a: "(\<forall>(dep, spec)\<in>set (svc_DependsOn svc). dep_Condition spec \<noteq> DependsOnServiceHealthy K) \<longrightarrow>
            getErrorDueToRestartLimit K s svcName c = None"
    unfolding n by auto
  have e: "\<forall>e. getErrorDueToRestartLimit K s svcName c = Some e \<longrightarrow>
            (\<exists>dep spec d n. (dep, spec) \<in> set (svc_DependsOn svc) \<and>
               dep_Condition spec = DependsOnServiceHealthy K \<and>
               map_of (stk_Services s) dep = Some d \<and>
               n = maxRestartCount (podsOfService K s dep c) \<and> svc_BackOffLimit d \<le> n \<and>
               e = ''Service '' @ [CHR 0x27] @ dep @ [CHR 0x27] @ '' has been restarted '' @
                   showInt n @ '' times. Please check the logs and try again'')"
    unfolding r using checkRestartLimits_Some[of K s c "svc_DependsOn svc"]
    by (fastforce simp: restartLimitError_def sq_def)
  have o: "\<forall>dep spec d. svc_DependsOn svc = [(dep, spec)] \<and>
              dep_Condition spec = DependsOnServiceHealthy K \<and>
              map_of (stk_Services s) dep = Some d \<longrightarrow>
            getErrorDueToRestartLimit K s svcName c =
              (if maxRestartCount (podsOfService K s dep c) < svc_BackOffLimit d then None
               else Some (''Service '' @ [CHR 0x27] @ dep @ [CHR 0x27] @ '' has been restarted '' @
                   showInt (maxRestartCount (podsOfService K s dep c)) @
                   '' times. Please check the logs and try again''))"
    unfolding r by (auto simp: Let_def restartLimitError_def sq_def)
  show ?thesis using a n e o by blast
qed

text \<open>
  \<^verbatim>\<open>TestGetErrorDueToRestartLimit\<close>: BackOffLimit 2 with one restart gives \<^verbatim>\<open>nil\<close>, with five
  restarts the error; a service without dependencies gives \<^verbatim>\<open>nil\<close>.
\<close>

theorem getErrorDueToRestartLimit_budget_witness:
  "getErrorDueToRestartLimit exampleConsts restartStack ''test2'' (restartCluster 1) = None \<and>
   getErrorDueToRestartLimit exampleConsts restartStack ''test2'' (restartCluster 5) =
     Some ''Service 'test1' has been restarted 5 times. Please check the logs and try again'' \<and>
   getErrorDueToRestartLimit exampleConsts restartStack ''test1'' (restartCluster 5) = None"
proof -
  have m: "map_of (stk_Services restartStack) ''test2'' =
      Some (zeroService\<lparr>svc_DependsOn := [(''test1'', \<lparr>dep_Condition = ''service_healthy''\<rparr>)]\<rparr>)"
    by (simp add: restartStack_def)
  have d: "map_of (stk_Services restartStack) ''test1'' = Some (zeroService\<lparr>svc_BackOffLimit := 2\<rparr>)"
    by (simp add: restartStack_def)
  have n: "maxRestartCount (podsOfService exampleConsts restartStack ''test1'' (restartCluster n)) =
           max 0 n" for n
    by (simp add: podsOfService_def maxRestartCount_def restartCluster_def restartStack_def
        exampleConsts_def emptyCluster_def)
  have pre: "svc_DependsOn (zeroService\<lparr>svc_DependsOn :=
                 [(''test1'', \<lparr>dep_Condition = ''service_healthy''\<rparr>)]\<rparr>) =
               [(''test1'', \<lparr>dep_Condition = ''service_healthy''\<rparr>)] \<and>
             dep_Condition \<lparr>dep_Condition = ''service_healthy''\<rparr> =
               DependsOnServiceHealthy exampleConsts \<and>
             map_of (stk_Services restartStack) ''test1'' =
               Some (zeroService\<lparr>svc_BackOffLimit := 2\<rparr>)"
    using d by (simp add: exampleConsts_def)
  have one: "getErrorDueToRestartLimit exampleConsts restartStack ''test2'' (restartCluster 1) = None"
    using getErrorDueToRestartLimit_budget
            [OF m, where K = exampleConsts and c = "restartCluster 1",
             THEN conjunct2, THEN conjunct2, THEN conjunct2, rule_format, OF pre]
    by (simp add: n zeroService_def)
  have five: "getErrorDueToRestartLimit exampleConsts restartStack ''test2'' (restartCluster 5) =
     Some ''Service 'test1' has been restarted 5 times. Please check the logs and try again''"
    using getErrorDueToRestartLimit_budget
            [OF m, where K = exampleConsts and c = "restartCluster 5",
             THEN conjunct2, THEN conjunct2, THEN conjunct2, rule_format, OF pre]
    by (simp add: n zeroService_def showInt_def)
  have none: "getErrorDueToRestartLimit exampleConsts restartStack ''test1'' (restartCluster 5) = None"
    using getErrorDueToRestartLimit_budget
            [OF d, where K = exampleConsts and c = "restartCluster 5", THEN conjunct1]
    by (simp add: zeroService_def)
  show ?thesis by (rule conjI[OF one conjI[OF five none]])
qed

section \<open>The dependency closure\<close>

lemma foldl_addIfNeeded:
  "\<exists>new. foldl (addIfNeeded s c) r ds = r @ new \<and> distinct new \<and> set new \<inter> set r = {} \<and>
         set new \<subseteq> set ds \<and> (\<forall>d\<in>set new. \<not> dependencySatisfied s c d) \<and>
         (\<forall>d\<in>set ds. d \<in> set r \<union> set new \<or> dependencySatisfied s c d)"
proof (induction ds arbitrary: r)
  case Nil
  then show ?case by simp
next
  case (Cons d ds)
  show ?case
  proof (cases "d \<notin> set r \<and> \<not> dependencySatisfied s c d")
    case True
    from Cons.IH[of "r @ [d]"] obtain new where
      n: "foldl (addIfNeeded s c) (r @ [d]) ds = (r @ [d]) @ new" "distinct new"
         "set new \<inter> set (r @ [d]) = {}" "set new \<subseteq> set ds"
         "\<forall>x\<in>set new. \<not> dependencySatisfied s c x"
         "\<forall>x\<in>set ds. x \<in> set (r @ [d]) \<union> set new \<or> dependencySatisfied s c x"
      by blast
    have step: "addIfNeeded s c r d = r @ [d]" using True by (simp add: addIfNeeded_def)
    show ?thesis
      using True n by (intro exI[of _ "d # new"]) (auto simp: step)
  next
    case False
    from Cons.IH[of r] obtain new where
      n: "foldl (addIfNeeded s c) r ds = r @ new" "distinct new"
         "set new \<inter> set r = {}" "set new \<subseteq> set ds"
         "\<forall>x\<in>set new. \<not> dependencySatisfied s c x"
         "\<forall>x\<in>set ds. x \<in> set r \<union> set new \<or> dependencySatisfied s c x"
      by blast
    have step: "addIfNeeded s c r d = r" using False by (auto simp: addIfNeeded_def)
    show ?thesis
      using False n by (intro exI[of _ new]) (auto simp: step)
  qed
qed

lemmas evalAdd = AddDependentServicesIfNotPresent_def expandFrom.simps addIfNeeded_def
  dependenciesOf_def dependencySatisfied_def IsRunning_def kind_def addServicesStack_def
  addServicesCluster_def emptyCluster_def jobService_def sfsService_def depService_def
  zeroService_def testJob_def testStatefulSet_def testDeployment_def RestartPolicyNever_def
  RestartPolicyAlways_def



lemma expandFrom_closed:
  assumes "i \<le> length res"
    and "res = req @ added" and "distinct added" and "set added \<inter> set req = {}"
    and "\<forall>d\<in>set added. \<not> dependencySatisfied s c d"
    and "\<forall>k<length added. \<exists>j<length req + k. added ! k \<in> set (dependenciesOf s (res ! j))"
    and "\<forall>j<i. \<forall>d\<in>set (dependenciesOf s (res ! j)). d \<in> set res \<or> dependencySatisfied s c d"
  shows "closedExpansion s c req (expandFrom s c i res)"
  using assms
proof (induction s c i res arbitrary: added rule: expandFrom.induct)
  case (1 s c i res)
  show ?case
  proof (cases "i < length res")
    case False
    then have i: "i = length res" using "1.prems"(1) by simp
    have e: "expandFrom s c i res = res" using False by (subst expandFrom.simps) simp
    have "\<forall>p\<in>set res. \<forall>d\<in>set (dependenciesOf s p). d \<in> set res \<or> dependencySatisfied s c d"
      using "1.prems"(7) unfolding i by (metis in_set_conv_nth)
    then show ?thesis
      unfolding e closedExpansion_def using "1.prems"(2-6) by (intro exI[of _ added]) simp
  next
    case True
    let ?ds = "dependenciesOf s (res ! i)"
    let ?r = "foldl (addIfNeeded s c) res ?ds"
    from foldl_addIfNeeded[of s c res ?ds] obtain new where
      n: "?r = res @ new" "distinct new" "set new \<inter> set res = {}" "set new \<subseteq> set ?ds"
         "\<forall>d\<in>set new. \<not> dependencySatisfied s c d"
         "\<forall>d\<in>set ?ds. d \<in> set res \<union> set new \<or> dependencySatisfied s c d"
      by blast
    have len: "length res = length req + length added" using "1.prems"(2) by simp
    have a1: "Suc i \<le> length ?r" using True n(1) by simp
    have a2: "?r = req @ (added @ new)" using n(1) "1.prems"(2) by simp
    have a3: "distinct (added @ new)" using n(2,3) "1.prems"(2,3) by auto
    have a4: "set (added @ new) \<inter> set req = {}" using n(3) "1.prems"(2,4) by auto
    have a5: "\<forall>d\<in>set (added @ new). \<not> dependencySatisfied s c d" using n(5) "1.prems"(5) by auto
    have a6: "\<forall>k<length (added @ new). \<exists>j<length req + k.
                (added @ new) ! k \<in> set (dependenciesOf s (?r ! j))"
    proof (intro allI impI)
      fix k assume k: "k < length (added @ new)"
      show "\<exists>j<length req + k. (added @ new) ! k \<in> set (dependenciesOf s (?r ! j))"
      proof (cases "k < length added")
        case True
        then obtain j where j: "j < length req + k" "added ! k \<in> set (dependenciesOf s (res ! j))"
          using "1.prems"(6) by blast
        then have "j < length res" using True len by simp
        then have "?r ! j = res ! j" unfolding n(1) by (simp add: nth_append)
        then show ?thesis using j True by (auto simp: nth_append)
      next
        case False
        then have "(added @ new) ! k \<in> set new" using k by (simp add: nth_append)
        then have "(added @ new) ! k \<in> set (dependenciesOf s (res ! i))" using n(4) by blast
        moreover have "?r ! i = res ! i"
          unfolding n(1) using \<open>i < length res\<close> by (simp add: nth_append)
        moreover have "i < length req + k" using False \<open>i < length res\<close> len by simp
        ultimately show ?thesis by metis
      qed
    qed
    have a7: "\<forall>j<Suc i. \<forall>d\<in>set (dependenciesOf s (?r ! j)).
                d \<in> set ?r \<or> dependencySatisfied s c d"
    proof (intro allI impI ballI)
      fix j d assume j: "j < Suc i" and d: "d \<in> set (dependenciesOf s (?r ! j))"
      have rj: "?r ! j = res ! j" unfolding n(1) using j True by (simp add: nth_append)
      show "d \<in> set ?r \<or> dependencySatisfied s c d"
      proof (cases "j = i")
        case True
        then show ?thesis using d rj n(6) unfolding n(1) by auto
      next
        case False
        then have "j < i" using j by simp
        then show ?thesis using d rj "1.prems"(7) unfolding n(1) by auto
      qed
    qed
    have "closedExpansion s c req (expandFrom s c (Suc i) ?r)"
      by (rule "1.IH"[OF True a1 a2 a3 a4 a5 a6 a7])
    moreover have "expandFrom s c i res = expandFrom s c (Suc i) ?r"
      using True by (subst expandFrom.simps) simp
    ultimately show ?thesis by simp
  qed
qed

lemma dependencySatisfied_cases:
  assumes "map_of (stk_Services s) dep = Some svc"
  shows "dependencySatisfied s c dep \<longleftrightarrow>
     (case kind svc of
        KJob \<Rightarrow> (\<exists>job. cl_Jobs c (stk_Namespace s, dep) = Some job \<and>
                    (0 < jst_Active (j_Status job) \<or> 0 < jst_Succeeded (j_Status job)))
      | KStatefulSet \<Rightarrow> (\<exists>sfs. cl_StatefulSets c (stk_Namespace s, dep) = Some sfs \<and>
                    0 < sst_ReadyReplicas (sfs_Status sfs))
      | KDeployment \<Rightarrow> (\<exists>d. cl_Deployments c (stk_Namespace s, dep) = Some d \<and>
                    0 < dst_ReadyReplicas (d_Status d)))"
  using assms by (auto simp: dependencySatisfied_def IsRunning_def split: Kind.splits option.splits)

text \<open>
  C4. \<^verbatim>\<open>AddDependentServicesIfNotPresent\<close> returns the requested list followed by the
  names it added. Each added name occurs once, was not requested, is not satisfied, and
  is a dependency of a name that stands before it in the result (discovery order); and
  the result is closed: every dependency of every name in it is in the result or is
  satisfied. A dependency of the stack is satisfied exactly when its Job is Active or
  has Succeeded, or its Deployment or StatefulSet has ready replicas; so a Job that has
  only failed, or an object that does not exist, is not, and is appended.
\<close>

theorem AddDependentServicesIfNotPresent_closure:
  "(\<exists>added.
     AddDependentServicesIfNotPresent s svcsToDeploy c = svcsToDeploy @ added \<and>
     distinct added \<and> set added \<inter> set svcsToDeploy = {} \<and>
     (\<forall>d\<in>set added. \<not> dependencySatisfied s c d) \<and>
     (\<forall>k<length added. \<exists>j<length svcsToDeploy + k.
         added ! k \<in> set (dependenciesOf s ((svcsToDeploy @ added) ! j))) \<and>
     (\<forall>p\<in>set (svcsToDeploy @ added). \<forall>d\<in>set (dependenciesOf s p).
         d \<in> set (svcsToDeploy @ added) \<or> dependencySatisfied s c d)) \<and>
   (\<forall>dep svc. map_of (stk_Services s) dep = Some svc \<longrightarrow>
      (dependencySatisfied s c dep \<longleftrightarrow>
         (case kind svc of
            KJob \<Rightarrow> (\<exists>job. cl_Jobs c (stk_Namespace s, dep) = Some job \<and>
                        (0 < jst_Active (j_Status job) \<or> 0 < jst_Succeeded (j_Status job)))
          | KStatefulSet \<Rightarrow> (\<exists>sfs. cl_StatefulSets c (stk_Namespace s, dep) = Some sfs \<and>
                        0 < sst_ReadyReplicas (sfs_Status sfs))
          | KDeployment \<Rightarrow> (\<exists>d. cl_Deployments c (stk_Namespace s, dep) = Some d \<and>
                        0 < dst_ReadyReplicas (d_Status d)))))"
proof -
  have "closedExpansion s c svcsToDeploy (expandFrom s c 0 svcsToDeploy)"
    by (rule expandFrom_closed[where added = "[]"]) simp_all
  then have "\<exists>added.
     AddDependentServicesIfNotPresent s svcsToDeploy c = svcsToDeploy @ added \<and>
     distinct added \<and> set added \<inter> set svcsToDeploy = {} \<and>
     (\<forall>d\<in>set added. \<not> dependencySatisfied s c d) \<and>
     (\<forall>k<length added. \<exists>j<length svcsToDeploy + k.
         added ! k \<in> set (dependenciesOf s ((svcsToDeploy @ added) ! j))) \<and>
     (\<forall>p\<in>set (svcsToDeploy @ added). \<forall>d\<in>set (dependenciesOf s p).
         d \<in> set (svcsToDeploy @ added) \<or> dependencySatisfied s c d)"
    unfolding closedExpansion_def AddDependentServicesIfNotPresent_def by metis
  moreover have "\<forall>dep svc. map_of (stk_Services s) dep = Some svc \<longrightarrow>
      (dependencySatisfied s c dep \<longleftrightarrow>
         (case kind svc of
            KJob \<Rightarrow> (\<exists>job. cl_Jobs c (stk_Namespace s, dep) = Some job \<and>
                        (0 < jst_Active (j_Status job) \<or> 0 < jst_Succeeded (j_Status job)))
          | KStatefulSet \<Rightarrow> (\<exists>sfs. cl_StatefulSets c (stk_Namespace s, dep) = Some sfs \<and>
                        0 < sst_ReadyReplicas (sfs_Status sfs))
          | KDeployment \<Rightarrow> (\<exists>d. cl_Deployments c (stk_Namespace s, dep) = Some d \<and>
                        0 < dst_ReadyReplicas (d_Status d))))"
    by (intro allI impI) (rule dependencySatisfied_cases)
  ultimately show ?thesis by (rule conjI)
qed

text \<open>The cases of \<^verbatim>\<open>Test_AddSomeServices\<close>.\<close>

theorem AddDependentServicesIfNotPresent_closure_witness:
  "AddDependentServicesIfNotPresent (addServicesStack ''job-not-running'' jobService) [''app'']
     addServicesCluster = [''app'', ''job-not-running''] \<and>
   AddDependentServicesIfNotPresent (addServicesStack ''job-active'' jobService) [''app'']
     addServicesCluster = [''app''] \<and>
   AddDependentServicesIfNotPresent (addServicesStack ''job-failed'' jobService) [''app'']
     addServicesCluster = [''app'', ''job-failed''] \<and>
   AddDependentServicesIfNotPresent (addServicesStack ''job-succeeded'' jobService) [''app'']
     addServicesCluster = [''app''] \<and>
   AddDependentServicesIfNotPresent (addServicesStack ''sfs'' sfsService) [''app'']
     addServicesCluster = [''app''] \<and>
   AddDependentServicesIfNotPresent (addServicesStack ''sfs-not-running'' sfsService) [''app'']
     addServicesCluster = [''app'', ''sfs-not-running''] \<and>
   AddDependentServicesIfNotPresent (addServicesStack ''dep'' depService) [''app'']
     addServicesCluster = [''app''] \<and>
   AddDependentServicesIfNotPresent (addServicesStack ''dep-not-running'' depService) [''app'']
     addServicesCluster = [''app'', ''dep-not-running''] \<and>
   AddDependentServicesIfNotPresent (addServicesStack ''db'' zeroService) [''app'', ''db'']
     emptyCluster = [''app'', ''db'']"
proof -
  have failed: "\<not> dependencySatisfied (addServicesStack ''job-failed'' jobService)
                    addServicesCluster ''job-failed''"
    by (simp add: evalAdd)
  from AddDependentServicesIfNotPresent_closure
         [of "addServicesStack ''job-failed'' jobService" "[''app'']" addServicesCluster]
  obtain added where
    r: "AddDependentServicesIfNotPresent (addServicesStack ''job-failed'' jobService) [''app'']
          addServicesCluster = [''app''] @ added"
    and d: "distinct added" "set added \<inter> set [''app''] = {}"
    and u: "\<forall>d\<in>set added. \<not> dependencySatisfied (addServicesStack ''job-failed'' jobService)
              addServicesCluster d"
    and p: "\<forall>k<length added. \<exists>j<length [''app''] + k. added ! k \<in>
              set (dependenciesOf (addServicesStack ''job-failed'' jobService)
                     (([''app''] @ added) ! j))"
    and cl: "\<forall>p\<in>set ([''app''] @ added).
              \<forall>d\<in>set (dependenciesOf (addServicesStack ''job-failed'' jobService) p).
                d \<in> set ([''app''] @ added) \<or>
                dependencySatisfied (addServicesStack ''job-failed'' jobService)
                  addServicesCluster d"
    by blast
  have "''job-failed'' \<in> set (dependenciesOf (addServicesStack ''job-failed'' jobService) ''app'')"
    by (simp add: dependenciesOf_def addServicesStack_def)
  moreover have "''app'' \<in> set ([''app''] @ added)" by simp
  ultimately have "''job-failed'' \<in> set ([''app''] @ added) \<or>
      dependencySatisfied (addServicesStack ''job-failed'' jobService) addServicesCluster ''job-failed''"
    using cl by blast
  then have "''job-failed'' \<in> set ([''app''] @ added)" using failed by blast
  then have "''job-failed'' \<in> set added" by simp
  then have "added \<noteq> []" by auto
  then have appended: "AddDependentServicesIfNotPresent (addServicesStack ''job-failed'' jobService)
      [''app''] addServicesCluster \<noteq> [''app'']"
    unfolding r by simp
  show ?thesis using appended by (simp add: evalAdd)
qed

section \<open>Kind selection and deployment\<close>







lemma translateLabels_defined:
  "map_of (stk_Services s) svcName = Some svc \<Longrightarrow> \<exists>l. translateLabels K svcName s = Inr l"
  by (simp add: translateLabels_def Let_def)





section \<open>Ownership of services\<close>

lemma foldl_marker_other:
  assumes "\<forall>v\<in>set vs. vol_LocalPath v \<noteq> [] \<longrightarrow> volumeMarkerLabel K (vol_LocalPath v) \<noteq> k"
  shows "foldl (\<lambda>labels volume.
                  if vol_LocalPath volume \<noteq> []
                  then labels(volumeMarkerLabel K (vol_LocalPath volume) \<mapsto> ''true'')
                  else labels) l vs k = l k"
  using assms by (induction vs arbitrary: l) auto

lemma translateLabels_stack_name:
  assumes "map_of (stk_Services s) svcName = Some svc"
    and "StackNameLabel K \<notin> dom (svc_Labels svc)"
    and "StackServiceNameLabel K \<noteq> StackNameLabel K"
    and "\<forall>v\<in>set (svc_Volumes svc). vol_LocalPath v \<noteq> [] \<longrightarrow>
           volumeMarkerLabel K (vol_LocalPath v) \<noteq> StackNameLabel K"
  shows "\<exists>l. translateLabels K svcName s = Inr l \<and> l (StackNameLabel K) = Some (stk_Name s)"
  using assms
  by (auto simp: translateLabels_def Let_def foldl_marker_other map_add_def domIff
      split: option.splits)

lemma translateService_defined:
  assumes "map_of (stk_Services s) svcName = Some svc"
  shows "\<exists>l. translateLabels K svcName s = Inr l \<and>
           translateService K E svcName s =
             Inr \<lparr>ksvc_ObjectMeta =
                    \<lparr>om_Name = svcName, om_Namespace = stk_Namespace s, om_Labels = l,
                     om_Annotations = translateAnnotations K E svc\<rparr>,
                  ksvc_Spec =
                    \<lparr>ks_Ports = translateServicePorts svc,
                     ks_Selector = translateLabelSelector K svcName s,
                     ks_Type = ServiceTypeClusterIP\<rparr>\<rparr>"
  using assms translateLabels_defined[OF assms, of K]
  by (auto simp: translateService_def bindE_def Let_def)

text \<open>
  C3, amended. When the service object exists with a stack-name label that differs from
  the stack's name, \<^verbatim>\<open>deployK8sService\<close> returns success and the cluster is unchanged,
  labels and spec included. When it is absent, the service translated from the stack is
  created; its stack-name label is the stack's name provided the service's own Labels do
  not set that key (nor does a volume marker or the service-name label coincide with it).
  When it exists with the stack's name as label, it is updated: its spec is the
  translated one and the label remains the stack's name.
\<close>

theorem deployK8sService_ownership:
  "(\<forall>old owner. cl_Services c (stk_Namespace s, svcName) = Some old \<and>
      om_Labels (ksvc_ObjectMeta old) (StackNameLabel K) = Some owner \<and>
      owner \<noteq> stk_Name s \<longrightarrow>
      deployK8sService K E svcName s c = Inr c) \<and>
   (\<forall>svc. cl_Services c (stk_Namespace s, svcName) = None \<and>
      map_of (stk_Services s) svcName = Some svc \<longrightarrow>
      (\<exists>new. translateService K E svcName s = Inr new \<and>
         deployK8sService K E svcName s c =
           Inr (c\<lparr>cl_Services := (cl_Services c)((stk_Namespace s, svcName) \<mapsto> new)\<rparr>) \<and>
         (StackNameLabel K \<notin> dom (svc_Labels svc) \<and>
          StackServiceNameLabel K \<noteq> StackNameLabel K \<and>
          (\<forall>v\<in>set (svc_Volumes svc). vol_LocalPath v \<noteq> [] \<longrightarrow>
             volumeMarkerLabel K (vol_LocalPath v) \<noteq> StackNameLabel K) \<longrightarrow>
          om_Labels (ksvc_ObjectMeta new) (StackNameLabel K) = Some (stk_Name s)))) \<and>
   (\<forall>old svc. cl_Services c (stk_Namespace s, svcName) = Some old \<and>
      om_Labels (ksvc_ObjectMeta old) (StackNameLabel K) = Some (stk_Name s) \<and>
      map_of (stk_Services s) svcName = Some svc \<longrightarrow>
      (\<exists>new t. translateService K E svcName s = Inr t \<and>
         deployK8sService K E svcName s c =
           Inr (c\<lparr>cl_Services := (cl_Services c)((stk_Namespace s, svcName) \<mapsto> new)\<rparr>) \<and>
         ksvc_Spec new = ksvc_Spec t \<and>
         om_Labels (ksvc_ObjectMeta new) (StackNameLabel K) = Some (stk_Name s)))"
proof -
  have skip: "\<forall>old owner. cl_Services c (stk_Namespace s, svcName) = Some old \<and>
      om_Labels (ksvc_ObjectMeta old) (StackNameLabel K) = Some owner \<and>
      owner \<noteq> stk_Name s \<longrightarrow>
      deployK8sService K E svcName s c = Inr c"
    by (auto simp: deployK8sService_def foreignOwner_def)
  have create: "\<forall>svc. cl_Services c (stk_Namespace s, svcName) = None \<and>
      map_of (stk_Services s) svcName = Some svc \<longrightarrow>
      (\<exists>new. translateService K E svcName s = Inr new \<and>
         deployK8sService K E svcName s c =
           Inr (c\<lparr>cl_Services := (cl_Services c)((stk_Namespace s, svcName) \<mapsto> new)\<rparr>) \<and>
         (StackNameLabel K \<notin> dom (svc_Labels svc) \<and>
          StackServiceNameLabel K \<noteq> StackNameLabel K \<and>
          (\<forall>v\<in>set (svc_Volumes svc). vol_LocalPath v \<noteq> [] \<longrightarrow>
             volumeMarkerLabel K (vol_LocalPath v) \<noteq> StackNameLabel K) \<longrightarrow>
          om_Labels (ksvc_ObjectMeta new) (StackNameLabel K) = Some (stk_Name s)))"
  proof (intro allI impI)
    fix svc
    assume a: "cl_Services c (stk_Namespace s, svcName) = None \<and>
      map_of (stk_Services s) svcName = Some svc"
    then have m: "map_of (stk_Services s) svcName = Some svc" by simp
    from translateService_defined[OF m, of K E] obtain l t where
      l: "translateLabels K svcName s = Inr l" and t: "translateService K E svcName s = Inr t"
      and tl: "om_Labels (ksvc_ObjectMeta t) = l"
      by auto
    have d: "deployK8sService K E svcName s c =
               Inr (c\<lparr>cl_Services := (cl_Services c)((stk_Namespace s, svcName) \<mapsto> t)\<rparr>)"
      using a by (simp add: deployK8sService_def bindE_def t)
    have n: "StackNameLabel K \<notin> dom (svc_Labels svc) \<and>
          StackServiceNameLabel K \<noteq> StackNameLabel K \<and>
          (\<forall>v\<in>set (svc_Volumes svc). vol_LocalPath v \<noteq> [] \<longrightarrow>
             volumeMarkerLabel K (vol_LocalPath v) \<noteq> StackNameLabel K) \<longrightarrow>
          om_Labels (ksvc_ObjectMeta t) (StackNameLabel K) = Some (stk_Name s)"
      using translateLabels_stack_name[OF m, of K] l tl by auto
    show "\<exists>new. translateService K E svcName s = Inr new \<and>
         deployK8sService K E svcName s c =
           Inr (c\<lparr>cl_Services := (cl_Services c)((stk_Namespace s, svcName) \<mapsto> new)\<rparr>) \<and>
         (StackNameLabel K \<notin> dom (svc_Labels svc) \<and>
          StackServiceNameLabel K \<noteq> StackNameLabel K \<and>
          (\<forall>v\<in>set (svc_Volumes svc). vol_LocalPath v \<noteq> [] \<longrightarrow>
             volumeMarkerLabel K (vol_LocalPath v) \<noteq> StackNameLabel K) \<longrightarrow>
          om_Labels (ksvc_ObjectMeta new) (StackNameLabel K) = Some (stk_Name s))"
      using t d n by (intro exI[of _ t]) simp
  qed
  have update: "\<forall>old svc. cl_Services c (stk_Namespace s, svcName) = Some old \<and>
      om_Labels (ksvc_ObjectMeta old) (StackNameLabel K) = Some (stk_Name s) \<and>
      map_of (stk_Services s) svcName = Some svc \<longrightarrow>
      (\<exists>new t. translateService K E svcName s = Inr t \<and>
         deployK8sService K E svcName s c =
           Inr (c\<lparr>cl_Services := (cl_Services c)((stk_Namespace s, svcName) \<mapsto> new)\<rparr>) \<and>
         ksvc_Spec new = ksvc_Spec t \<and>
         om_Labels (ksvc_ObjectMeta new) (StackNameLabel K) = Some (stk_Name s))"
  proof (intro allI impI)
    fix old svc
    assume o: "cl_Services c (stk_Namespace s, svcName) = Some old \<and>
      om_Labels (ksvc_ObjectMeta old) (StackNameLabel K) = Some (stk_Name s) \<and>
      map_of (stk_Services s) svcName = Some svc"
    then have m: "map_of (stk_Services s) svcName = Some svc" by simp
    from translateService_defined[OF m, of K E] obtain t where
      t: "translateService K E svcName s = Inr t"
      by auto
    let ?new = "old\<lparr>ksvc_ObjectMeta := refreshLabels K s (ksvc_ObjectMeta old),
                     ksvc_Spec := ksvc_Spec t\<rparr>"
    have d: "deployK8sService K E svcName s c =
               Inr (c\<lparr>cl_Services := (cl_Services c)((stk_Namespace s, svcName) \<mapsto> ?new)\<rparr>)"
      using o by (simp add: deployK8sService_def bindE_def t foreignOwner_def)
    have "om_Labels (ksvc_ObjectMeta ?new) (StackNameLabel K) = Some (stk_Name s)"
      by (simp add: refreshLabels_def)
    then show "\<exists>new t. translateService K E svcName s = Inr t \<and>
         deployK8sService K E svcName s c =
           Inr (c\<lparr>cl_Services := (cl_Services c)((stk_Namespace s, svcName) \<mapsto> new)\<rparr>) \<and>
         ksvc_Spec new = ksvc_Spec t \<and>
         om_Labels (ksvc_ObjectMeta new) (StackNameLabel K) = Some (stk_Name s)"
      using t d by (intro exI[of _ ?new] exI[of _ t]) simp
  qed
  show ?thesis by (rule conjI[OF skip conjI[OF create update]])
qed

lemmas evalService = nameLabelAfter_def deployK8sService_def translateService_def bindE_def
  translateLabels_def serviceStack_def serviceCluster_def existingService_def emptyCluster_def
  zeroService_def exampleConsts_def foreignOwner_def refreshLabels_def Let_def

text \<open>
  C3, as stated, fails in its second part: the labels of a created service are those of
  \<^verbatim>\<open>translateLabels\<close>, which lays the service's own Labels over the computed ones. A
  service of the stack \<open>test\<close> that sets the stack-name label to \<open>hola\<close> is created, in
  an empty cluster, with the label \<open>hola\<close>.
\<close>

theorem deployK8sService_user_label_wins:
  "stk_Name (serviceStack [''stack.okteto.com/name'' \<mapsto> ''hola'']) = ''test'' \<and>
   cl_Services emptyCluster (''ns'', ''test'') = None \<and>
   nameLabelAfter (deployK8sService exampleConsts exampleEnviron ''test''
      (serviceStack [''stack.okteto.com/name'' \<mapsto> ''hola'']) emptyCluster) = Some ''hola''"
  by (simp add: evalService)

text \<open>
  The three scenarios of \<^verbatim>\<open>TestDeployK8sService\<close>: the service labelled \<open>hola\<close> is left as
  it is, the one labelled \<open>test\<close> keeps its label, the absent one is created with it.
\<close>

theorem deployK8sService_ownership_witness:
  "deployK8sService exampleConsts exampleEnviron ''test'' (serviceStack [''ey'' \<mapsto> ''a''])
     (serviceCluster ''hola'') = Inr (serviceCluster ''hola'') \<and>
   nameLabelAfter (deployK8sService exampleConsts exampleEnviron ''test''
     (serviceStack [''ey'' \<mapsto> ''a'']) (serviceCluster ''hola'')) = Some ''hola'' \<and>
   nameLabelAfter (deployK8sService exampleConsts exampleEnviron ''test''
     (serviceStack [''ey'' \<mapsto> ''a'']) (serviceCluster ''test'')) = Some ''test'' \<and>
   nameLabelAfter (deployK8sService exampleConsts exampleEnviron ''test''
     (serviceStack [''ey'' \<mapsto> ''a'']) emptyCluster) = Some ''test''"
proof -
  let ?s = "serviceStack [''ey'' \<mapsto> ''a'']"
  let ?svc = "zeroService\<lparr>svc_Labels := [''ey'' \<mapsto> ''a'']\<rparr>"
  note own = deployK8sService_ownership
               [where K = exampleConsts and E = exampleEnviron and s = ?s and svcName = "''test''"]
  have ns: "stk_Namespace ?s = ''ns''" and nm: "stk_Name ?s = ''test''"
    by (simp_all add: serviceStack_def)
  have m: "map_of (stk_Services ?s) ''test'' = Some ?svc"
    by (simp add: serviceStack_def)
  have f: "cl_Services (serviceCluster ''hola'') (stk_Namespace ?s, ''test'') =
             Some (existingService ''hola'') \<and>
           om_Labels (ksvc_ObjectMeta (existingService ''hola'')) (StackNameLabel exampleConsts) =
             Some ''hola'' \<and>
           ''hola'' \<noteq> stk_Name ?s"
    by (simp add: serviceStack_def serviceCluster_def existingService_def exampleConsts_def)
  have skip: "deployK8sService exampleConsts exampleEnviron ''test'' ?s (serviceCluster ''hola'') =
                Inr (serviceCluster ''hola'')"
    by (rule own[where c = "serviceCluster ''hola''", THEN conjunct1, rule_format, OF f])
  have l: "nameLabelAfter (Inr (serviceCluster ''hola'')) = Some ''hola''"
    by (simp add: nameLabelAfter_def serviceCluster_def existingService_def)
  have g: "cl_Services (serviceCluster ''test'') (stk_Namespace ?s, ''test'') =
             Some (existingService ''test'') \<and>
           om_Labels (ksvc_ObjectMeta (existingService ''test'')) (StackNameLabel exampleConsts) =
             Some (stk_Name ?s) \<and>
           map_of (stk_Services ?s) ''test'' = Some ?svc"
    by (simp add: serviceStack_def serviceCluster_def existingService_def exampleConsts_def)
  from own[where c = "serviceCluster ''test''", THEN conjunct2, THEN conjunct2, rule_format, OF g]
  obtain updated where
    ud: "deployK8sService exampleConsts exampleEnviron ''test'' ?s (serviceCluster ''test'') =
           Inr ((serviceCluster ''test'')\<lparr>cl_Services :=
                  (cl_Services (serviceCluster ''test''))((stk_Namespace ?s, ''test'') \<mapsto> updated)\<rparr>)"
    and ul: "om_Labels (ksvc_ObjectMeta updated) (StackNameLabel exampleConsts) = Some (stk_Name ?s)"
    by blast
  have u: "nameLabelAfter (deployK8sService exampleConsts exampleEnviron ''test'' ?s
             (serviceCluster ''test'')) = Some ''test''"
    unfolding ud using ul by (simp add: nameLabelAfter_def ns nm exampleConsts_def)
  have h: "cl_Services emptyCluster (stk_Namespace ?s, ''test'') = None \<and>
           map_of (stk_Services ?s) ''test'' = Some ?svc"
    using m by (simp add: emptyCluster_def)
  have free: "StackNameLabel exampleConsts \<notin> dom (svc_Labels ?svc) \<and>
          StackServiceNameLabel exampleConsts \<noteq> StackNameLabel exampleConsts \<and>
          (\<forall>v\<in>set (svc_Volumes ?svc). vol_LocalPath v \<noteq> [] \<longrightarrow>
             volumeMarkerLabel exampleConsts (vol_LocalPath v) \<noteq> StackNameLabel exampleConsts)"
    by (simp add: exampleConsts_def zeroService_def)
  from own[where c = emptyCluster, THEN conjunct2, THEN conjunct1, rule_format, OF h]
  obtain created where
    cd: "deployK8sService exampleConsts exampleEnviron ''test'' ?s emptyCluster =
           Inr (emptyCluster\<lparr>cl_Services :=
                  (cl_Services emptyCluster)((stk_Namespace ?s, ''test'') \<mapsto> created)\<rparr>)"
    and cl: "StackNameLabel exampleConsts \<notin> dom (svc_Labels ?svc) \<and>
          StackServiceNameLabel exampleConsts \<noteq> StackNameLabel exampleConsts \<and>
          (\<forall>v\<in>set (svc_Volumes ?svc). vol_LocalPath v \<noteq> [] \<longrightarrow>
             volumeMarkerLabel exampleConsts (vol_LocalPath v) \<noteq> StackNameLabel exampleConsts)
          \<longrightarrow> om_Labels (ksvc_ObjectMeta created) (StackNameLabel exampleConsts) =
                Some (stk_Name ?s)"
    by blast
  from cl free have "om_Labels (ksvc_ObjectMeta created) (StackNameLabel exampleConsts) =
      Some (stk_Name ?s)"
    by (rule mp)
  then have c: "nameLabelAfter (deployK8sService exampleConsts exampleEnviron ''test'' ?s
             emptyCluster) = Some ''test''"
    unfolding cd by (simp add: nameLabelAfter_def ns nm exampleConsts_def)
  show ?thesis unfolding skip using l u c by simp
qed

end
